theory Spec2Isabelle
  imports Main
begin

section \<open>Data model of \<open>Main.py\<close>\<close>

text \<open>
  The two SQLite tables of \<open>init_db\<close>. Every column other than the keys is nullable
  in the schema, so the columns of \<open>packages\<close> are options (\<open>None\<close> is NULL).
  \<open>packages\<close> has \<open>tag_id TEXT PRIMARY KEY\<close>: it is a map from the tag to the row.
  \<open>movements\<close> is a list in insertion order; every row of it is written by the INSERT
  of \<open>move_package\<close>, which gives all six columns a value.
\<close>

record package =
  location :: "string option"
  last_updated :: "string option"
  status :: "string option"

record movement =
  movement_id :: nat
  tag_id :: string
  from_location :: string
  to_location :: string
  timestamp :: string
  metrc_synced :: bool

text \<open>A JSON object with string values: the broadcast event, the METRC payload, the
  lines of \<open>pending_metrc_sync.json\<close> and the response body.\<close>

type_synonym json_dict = "(string \<times> string) list"

type_synonym client = nat

text \<open>
  Everything the program reads and writes: the database, the global set
  \<open>connected_clients\<close> (a list, in the order the \<open>for\<close> loop of \<open>broadcast\<close> visits it),
  the messages \<open>send_json\<close> has delivered, the requests posted to METRC and the lines
  appended to \<open>pending_metrc_sync.json\<close>. The \<open>logging\<close> calls are left out: they
  change neither the control flow nor any of these.
\<close>

record world =
  packages :: "string \<rightharpoonup> package"
  movements :: "movement list"
  connected_clients :: "client list"
  sent :: "(client \<times> json_dict) list"
  metrc_posts :: "json_dict list"
  pending_metrc_sync :: "json_dict list"

text \<open>The module constants \<open>METRC_API_KEY\<close> and \<open>FACILITY_LICENSE\<close> (``add your API key
  here''): parameters of the deployment, both empty in the source as it is.\<close>

record config =
  METRC_API_KEY :: string
  FACILITY_LICENSE :: string

definition source_config :: config where
  "source_config = \<lparr>METRC_API_KEY = [], FACILITY_LICENSE = []\<rparr>"

text \<open>
  Exceptions. \<open>detail=str(e)\<close> of line 111 is kept symbolic as \<open>Str e\<close>: how a library
  exception prints is not part of this program.
\<close>

datatype exn =
    HTTPException nat detail
  | UnboundLocalError string
  | Exception string
and detail =
    Text string
  | Str exn

text \<open>The exception an error response wraps, innermost: for an exception that the
  handler of line 109 caught and re-raised, the one raised at the point of failure.\<close>

fun root_cause :: "exn \<Rightarrow> exn" where
  "root_cause (HTTPException c (Str e)) = root_cause e"
| "root_cause (HTTPException c (Text s)) = HTTPException c (Text s)"
| "root_cause (UnboundLocalError v) = UnboundLocalError v"
| "root_cause (Exception s) = Exception s"

text \<open>
  What one call depends on besides its arguments and the stored state: the clock, which
  statements of which connection raise \<open>sqlite3.Error\<close> (\<open>Some\<close> its message), which
  clients' \<open>send_json\<close> raises, what \<open>requests.post\<close> does, and whether appending to the
  retry file raises. An append either writes its line or raises before writing.
\<close>

datatype db_op =
    Connect | SelectLocation | UpdatePackage | InsertMovement | Commit
  | SyncConnect | SyncUpdate | SyncCommit

datatype file_op = AppendPayload | AppendFallback

datatype http_outcome = Response nat string | Raises string

record env =
  now :: string
  db_fault :: "db_op \<Rightarrow> string option"
  send_fault :: "client \<Rightarrow> string option"
  metrc_response :: http_outcome
  file_fault :: "file_op \<Rightarrow> string option"

section \<open>The operations\<close>

text \<open>Python's \<open>not x\<close> for \<open>x = data.get(key)\<close>, a string or \<open>None\<close>.\<close>

definition py_not :: "string option \<Rightarrow> bool" where
  "py_not x = (case x of None \<Rightarrow> True | Some s \<Rightarrow> s = [])"

text \<open>An f-string field: \<open>None\<close> prints as \<open>None\<close>.\<close>

definition py_str :: "string option \<Rightarrow> string" where
  "py_str x = (case x of None \<Rightarrow> ''None'' | Some s \<Rightarrow> s)"

text \<open>\<open>id INTEGER PRIMARY KEY AUTOINCREMENT\<close>: one more than the largest id so far
  (the program deletes no row).\<close>

definition next_id :: "movement list \<Rightarrow> nat" where
  "next_id ms = Suc (foldr max (map movement_id ms) 0)"

text \<open>
  Lines 57--59. The loop sends to the clients in turn; the first \<open>send_json\<close> that raises
  ends it, and the exception leaves \<open>broadcast\<close>.
\<close>

fun broadcast_loop ::
  "env \<Rightarrow> json_dict \<Rightarrow> client list \<Rightarrow> (client \<times> json_dict) list
    \<Rightarrow> exn option \<times> (client \<times> json_dict) list" where
  "broadcast_loop e d [] out = (None, out)"
| "broadcast_loop e d (c # cs) out =
     (case send_fault e c of
        Some msg \<Rightarrow> (Some (Exception msg), out)
      | None \<Rightarrow> broadcast_loop e d cs (out @ [(c, d)]))"

definition broadcast :: "env \<Rightarrow> json_dict \<Rightarrow> world \<Rightarrow> exn option \<times> world" where
  "broadcast e d w =
     (case broadcast_loop e d (connected_clients w) (sent w) of
        (r, out) \<Rightarrow> (r, w\<lparr>sent := out\<rparr>))"

text \<open>
  Lines 72--92: the transaction. It returns the timestamp and the committed state, or the
  exception raised; until \<open>conn.commit()\<close> returns nothing is stored, and
  \<open>conn.close()\<close> in the \<open>finally\<close> discards an open transaction.
\<close>

definition move_txn ::
  "env \<Rightarrow> string \<Rightarrow> string \<Rightarrow> string \<Rightarrow> world \<Rightarrow> exn + string \<times> world" where
  "move_txn e tag from_loc to_loc w =
     (case db_fault e Connect of
        Some msg \<Rightarrow> Inl (Exception msg)
      | None \<Rightarrow>
       (case db_fault e SelectLocation of
          Some msg \<Rightarrow> Inl (Exception msg)
        | None \<Rightarrow>
         (case packages w tag of
            None \<Rightarrow> Inl (HTTPException 404 (Text (''Package '' @ tag @ '' not found'')))
          | Some row \<Rightarrow>
              if location row \<noteq> Some from_loc then
                Inl (HTTPException 400
                  (Text (''Package '' @ tag @ '' is in '' @ py_str (location row)
                           @ '', not '' @ from_loc)))
              else
                let ts = now e in
                (case db_fault e UpdatePackage of
                   Some msg \<Rightarrow> Inl (Exception msg)
                 | None \<Rightarrow>
                  (case db_fault e InsertMovement of
                     Some msg \<Rightarrow> Inl (Exception msg)
                   | None \<Rightarrow>
                    (case db_fault e Commit of
                       Some msg \<Rightarrow> Inl (Exception msg)
                     | None \<Rightarrow>
                        Inr (ts,
                          w\<lparr>packages := (packages w)(tag \<mapsto>
                               \<lparr>location = Some to_loc, last_updated = Some ts,
                                status = Some ''Active''\<rparr>),
                            movements := movements w @
                               [\<lparr>movement_id = next_id (movements w), tag_id = tag,
                                 from_location = from_loc, to_location = to_loc,
                                 timestamp = ts, metrc_synced = False\<rparr>]\<rparr>)))))))"

text \<open>Line 131: \<open>UPDATE movements SET metrc_synced = True WHERE tag_id = ? AND timestamp = ?\<close>.\<close>

definition mark_synced :: "string \<Rightarrow> string \<Rightarrow> movement list \<Rightarrow> movement list" where
  "mark_synced tag ts ms =
     map (\<lambda>m. if tag_id m = tag \<and> timestamp m = ts then m\<lparr>metrc_synced := True\<rparr> else m) ms"

text \<open>
  Lines 116--146. The \<open>try\<close> block posts the payload; on status 200 it marks the rows
  synced on a connection of its own, on any other status it appends the payload to the
  retry file. Whatever the block raises, the handler appends a second form of the entry;
  an exception of that append leaves the function.
\<close>

definition sync_try :: "config \<Rightarrow> env \<Rightarrow> string \<Rightarrow> string \<Rightarrow> string \<Rightarrow> world \<Rightarrow> exn option \<times> world" where
  "sync_try cfg e tag new_location ts w =
     (let payload = [(''licenseNumber'', FACILITY_LICENSE cfg), (''packageLabel'', tag),
                     (''room'', new_location), (''moveDateTime'', ts)];
          w1 = w\<lparr>metrc_posts := metrc_posts w @ [payload]\<rparr>
      in case metrc_response e of
           Raises msg \<Rightarrow> (Some (Exception msg), w1)
         | Response code body \<Rightarrow>
             if code = 200 then
               (case db_fault e SyncConnect of
                  Some msg \<Rightarrow> (Some (Exception msg), w1)
                | None \<Rightarrow>
                 (case db_fault e SyncUpdate of
                    Some msg \<Rightarrow> (Some (Exception msg), w1)
                  | None \<Rightarrow>
                   (case db_fault e SyncCommit of
                      Some msg \<Rightarrow> (Some (Exception msg), w1)
                    | None \<Rightarrow> (None, w1\<lparr>movements := mark_synced tag ts (movements w1)\<rparr>))))
             else
               (case file_fault e AppendPayload of
                  Some msg \<Rightarrow> (Some (Exception msg), w1)
                | None \<Rightarrow> (None, w1\<lparr>pending_metrc_sync := pending_metrc_sync w1 @ [payload]\<rparr>)))"

definition sync_with_metrc ::
  "config \<Rightarrow> env \<Rightarrow> string \<Rightarrow> string \<Rightarrow> string \<Rightarrow> world \<Rightarrow> exn option \<times> world" where
  "sync_with_metrc cfg e tag new_location ts w =
     (case sync_try cfg e tag new_location ts w of
        (None, w1) \<Rightarrow> (None, w1)
      | (Some ex, w1) \<Rightarrow>
          (case file_fault e AppendFallback of
             Some msg \<Rightarrow> (Some (Exception msg), w1)
           | None \<Rightarrow>
               (None, w1\<lparr>pending_metrc_sync := pending_metrc_sync w1 @
                  [[(''tag_id'', tag), (''new_location'', new_location), (''timestamp'', ts)]]\<rparr>)))"

text \<open>Lines 71--107, the body of the \<open>try\<close> of \<open>move_package\<close>.\<close>

definition move_try ::
  "config \<Rightarrow> env \<Rightarrow> string \<Rightarrow> string \<Rightarrow> string \<Rightarrow> world \<Rightarrow> (exn + json_dict) \<times> world" where
  "move_try cfg e tag from_loc to_loc w =
     (case move_txn e tag from_loc to_loc w of
        Inl ex \<Rightarrow> (Inl ex, w)
      | Inr (ts, w1) \<Rightarrow>
          (case broadcast e [(''tag_id'', tag), (''from_location'', from_loc),
                             (''to_location'', to_loc), (''timestamp'', ts)] w1 of
             (Some ex, w2) \<Rightarrow> (Inl ex, w2)
           | (None, w2) \<Rightarrow>
               if METRC_API_KEY cfg \<noteq> [] \<and> FACILITY_LICENSE cfg \<noteq> [] then
                 (case sync_with_metrc cfg e tag to_loc ts w2 of
                    (Some ex, w3) \<Rightarrow> (Inl ex, w3)
                  | (None, w3) \<Rightarrow> (Inr [(''message'', ''Package moved successfully'')], w3))
               else (Inr [(''message'', ''Package moved successfully'')], w2)))"

text \<open>
  Lines 63--113. The request body \<open>data\<close> is a dictionary; its values are taken to be
  strings, and \<open>data.get\<close> gives \<open>None\<close> for a missing key. The field check is outside
  the \<open>try\<close>; past it the three fields are non-empty strings, which \<open>py_str\<close> hands on
  as they are. Inside it, \<open>except Exception\<close>
  catches every exception of the body, the \<open>HTTPException\<close>s of lines 79 and 81 among
  them, and raises status 500 with \<open>str(e)\<close>. The \<open>finally\<close> then closes \<open>conn\<close>; when
  \<open>sqlite3.connect\<close> itself raised, \<open>conn\<close> is unbound there and the
  \<open>UnboundLocalError\<close> replaces the exception in flight.
\<close>

definition move_package ::
  "config \<Rightarrow> env \<Rightarrow> (string \<rightharpoonup> string) \<Rightarrow> world \<Rightarrow> (exn + json_dict) \<times> world" where
  "move_package cfg e data w =
     (let tag = data ''tag_id'';
          from_loc = data ''from_location'';
          to_loc = data ''to_location''
      in if py_not tag \<or> py_not from_loc \<or> py_not to_loc then
           (Inl (HTTPException 400 (Text ''Missing required fields'')), w)
         else
           (case move_try cfg e (py_str tag) (py_str from_loc) (py_str to_loc) w of
              (Inr r, w1) \<Rightarrow> (Inr r, w1)
            | (Inl ex, w1) \<Rightarrow>
                if db_fault e Connect \<noteq> None then (Inl (UnboundLocalError ''conn''), w1)
                else (Inl (HTTPException 500 (Str ex)), w1)))"

text \<open>A sequence of requests, each with the environment it meets, served one after the
  other; only the state is carried on.\<close>

fun run :: "config \<Rightarrow> world \<Rightarrow> (env \<times> (string \<rightharpoonup> string)) list \<Rightarrow> world" where
  "run cfg w [] = w"
| "run cfg w ((e, data) # rest) = run cfg (snd (move_package cfg e data w)) rest"

section \<open>Properties of the stored state\<close>

text \<open>The latest movement record of a unit: the last one in the ledger, which is in commit
  order (every INSERT appends, with an id above all earlier ones).\<close>

definition latest_movement :: "string \<Rightarrow> movement list \<Rightarrow> movement option" where
  "latest_movement t ms = find (\<lambda>m. tag_id m = t) (rev ms)"

text \<open>The registry agrees with the ledger on a unit: if the unit has a movement record, its
  row exists and its location is the \<open>to_location\<close> of the latest one.\<close>

definition unit_consistent :: "world \<Rightarrow> string \<Rightarrow> bool" where
  "unit_consistent w t =
     (case latest_movement t (movements w) of
        None \<Rightarrow> True
      | Some m \<Rightarrow>
          (case packages w t of
             None \<Rightarrow> False
           | Some row \<Rightarrow> location row = Some (to_location m)))"

text \<open>The retry queue is the list of lines of \<open>pending_metrc_sync.json\<close>. A line stands for a
  movement record when it carries the record's tag and timestamp, under the keys of
  either of its two forms (the payload of line 139, the entry of line 145).\<close>

definition in_retry_queue :: "json_dict list \<Rightarrow> movement \<Rightarrow> bool" where
  "in_retry_queue q m =
     (\<exists>entry \<in> set q.
        (map_of entry ''packageLabel'' = Some (tag_id m)
           \<and> map_of entry ''moveDateTime'' = Some (timestamp m))
      \<or> (map_of entry ''tag_id'' = Some (tag_id m)
           \<and> map_of entry ''timestamp'' = Some (timestamp m)))"

text \<open>Every record not marked synced has a line in the retry queue.\<close>

definition all_discoverable :: "world \<Rightarrow> bool" where
  "all_discoverable w =
     (\<forall>m \<in> set (movements w). \<not> metrc_synced m \<longrightarrow> in_retry_queue (pending_metrc_sync w) m)"

section \<open>Concrete scenarios\<close>

text \<open>Unit \<open>T1\<close> stands in \<open>VegRoom\<close>, two observers are connected, nothing has moved yet;
  the request moves it to \<open>FlowerRoom\<close> and nothing in the environment fails. With the
  configuration of the source the result is \<open>flower_world\<close>.\<close>

definition veg_world :: world where
  "veg_world =
     \<lparr>packages = [''T1'' \<mapsto> \<lparr>location = Some ''VegRoom'', last_updated = None,
                               status = Some ''Quarantine''\<rparr>],
      movements = [], connected_clients = [1, 2], sent = [],
      metrc_posts = [], pending_metrc_sync = []\<rparr>"

definition calm_env :: env where
  "calm_env =
     \<lparr>now = ''2024-05-01T10:00:00'', db_fault = (\<lambda>_. None), send_fault = (\<lambda>_. None),
      metrc_response = Response 200 ''OK'', file_fault = (\<lambda>_. None)\<rparr>"

definition to_flower :: "string \<rightharpoonup> string" where
  "to_flower = [''tag_id'' \<mapsto> ''T1'', ''from_location'' \<mapsto> ''VegRoom'',
                ''to_location'' \<mapsto> ''FlowerRoom'']"

definition flower_event :: json_dict where
  "flower_event = [(''tag_id'', ''T1''), (''from_location'', ''VegRoom''),
                   (''to_location'', ''FlowerRoom''), (''timestamp'', ''2024-05-01T10:00:00'')]"

definition flower_world :: world where
  "flower_world =
     \<lparr>packages = [''T1'' \<mapsto> \<lparr>location = Some ''FlowerRoom'',
                               last_updated = Some ''2024-05-01T10:00:00'',
                               status = Some ''Active''\<rparr>],
      movements = [\<lparr>movement_id = 1, tag_id = ''T1'', from_location = ''VegRoom'',
                    to_location = ''FlowerRoom'', timestamp = ''2024-05-01T10:00:00'',
                    metrc_synced = False\<rparr>],
      connected_clients = [1, 2],
      sent = [(1, flower_event), (2, flower_event)],
      metrc_posts = [], pending_metrc_sync = []\<rparr>"

text \<open>A deployment with credentials, where line 104 lets the sync run.\<close>

definition live_config :: config where
  "live_config = \<lparr>METRC_API_KEY = ''key'', FACILITY_LICENSE = ''LIC-1''\<rparr>"

text \<open>A second move of \<open>T1\<close>, a day later; with credentials and METRC answering 200 both
  records end up synced (\<open>dry_world\<close>).\<close>

definition to_dry :: "string \<rightharpoonup> string" where
  "to_dry = [''tag_id'' \<mapsto> ''T1'', ''from_location'' \<mapsto> ''FlowerRoom'',
             ''to_location'' \<mapsto> ''DryRoom'']"

definition later_env :: env where
  "later_env =
     \<lparr>now = ''2024-05-02T09:30:00'', db_fault = (\<lambda>_. None), send_fault = (\<lambda>_. None),
      metrc_response = Response 200 ''OK'', file_fault = (\<lambda>_. None)\<rparr>"

definition dry_world :: world where
  "dry_world =
     \<lparr>packages = [''T1'' \<mapsto> \<lparr>location = Some ''DryRoom'',
                               last_updated = Some ''2024-05-02T09:30:00'',
                               status = Some ''Active''\<rparr>],
      movements = [\<lparr>movement_id = 1, tag_id = ''T1'', from_location = ''VegRoom'',
                    to_location = ''FlowerRoom'', timestamp = ''2024-05-01T10:00:00'',
                    metrc_synced = True\<rparr>,
                   \<lparr>movement_id = 2, tag_id = ''T1'', from_location = ''FlowerRoom'',
                    to_location = ''DryRoom'', timestamp = ''2024-05-02T09:30:00'',
                    metrc_synced = True\<rparr>],
      connected_clients = [1, 2],
      sent = [(1, flower_event), (2, flower_event),
              (1, [(''tag_id'', ''T1''), (''from_location'', ''FlowerRoom''),
                   (''to_location'', ''DryRoom''), (''timestamp'', ''2024-05-02T09:30:00'')]),
              (2, [(''tag_id'', ''T1''), (''from_location'', ''FlowerRoom''),
                   (''to_location'', ''DryRoom''), (''timestamp'', ''2024-05-02T09:30:00'')])],
      metrc_posts =
        [[(''licenseNumber'', ''LIC-1''), (''packageLabel'', ''T1''),
          (''room'', ''FlowerRoom''), (''moveDateTime'', ''2024-05-01T10:00:00'')],
         [(''licenseNumber'', ''LIC-1''), (''packageLabel'', ''T1''),
          (''room'', ''DryRoom''), (''moveDateTime'', ''2024-05-02T09:30:00'')]],
      pending_metrc_sync = []\<rparr>"

text \<open>Requests that must fail: a stale \<open>from_location\<close> for \<open>T1\<close> once it stands in
  \<open>FlowerRoom\<close>, an unknown tag, an unknown tag with an empty destination, and a wrong
  \<open>from_location\<close> for \<open>T1\<close> in \<open>VegRoom\<close>.\<close>

definition stale_request :: "string \<rightharpoonup> string" where
  "stale_request = [''tag_id'' \<mapsto> ''T1'', ''from_location'' \<mapsto> ''VegRoom'',
                    ''to_location'' \<mapsto> ''DryRoom'']"

definition ghost_request :: "string \<rightharpoonup> string" where
  "ghost_request = [''tag_id'' \<mapsto> ''T9'', ''from_location'' \<mapsto> ''VegRoom'',
                    ''to_location'' \<mapsto> ''FlowerRoom'']"

definition ghost_nowhere_request :: "string \<rightharpoonup> string" where
  "ghost_nowhere_request = [''tag_id'' \<mapsto> ''T9'', ''from_location'' \<mapsto> ''VegRoom'',
                            ''to_location'' \<mapsto> '''']"

definition wrong_room_request :: "string \<rightharpoonup> string" where
  "wrong_room_request = [''tag_id'' \<mapsto> ''T1'', ''from_location'' \<mapsto> ''DryRoom'',
                         ''to_location'' \<mapsto> ''FlowerRoom'']"

text \<open>Environments in which something fails: the SELECT of line 76, the INSERT of line 89,
  the \<open>send_json\<close> to observer 1, the request to METRC (a timeout), and the request to
  METRC together with every append to the retry file.\<close>

definition select_fails_env :: env where
  "select_fails_env =
     \<lparr>now = ''2024-05-01T10:00:00'',
      db_fault = (\<lambda>op. if op = SelectLocation then Some ''no such table: packages'' else None),
      send_fault = (\<lambda>_. None),
      metrc_response = Response 200 ''OK'', file_fault = (\<lambda>_. None)\<rparr>"

definition insert_fails_env :: env where
  "insert_fails_env =
     \<lparr>now = ''2024-05-01T10:00:00'',
      db_fault = (\<lambda>op. if op = InsertMovement then Some ''disk I/O error'' else None),
      send_fault = (\<lambda>_. None),
      metrc_response = Response 200 ''OK'', file_fault = (\<lambda>_. None)\<rparr>"

definition first_down_env :: env where
  "first_down_env =
     \<lparr>now = ''2024-05-01T10:00:00'', db_fault = (\<lambda>_. None),
      send_fault = (\<lambda>c. if c = 1 then Some ''WebSocketDisconnect'' else None),
      metrc_response = Response 200 ''OK'', file_fault = (\<lambda>_. None)\<rparr>"

definition timeout_env :: env where
  "timeout_env =
     \<lparr>now = ''2024-05-01T10:00:00'', db_fault = (\<lambda>_. None), send_fault = (\<lambda>_. None),
      metrc_response = Raises ''ReadTimeout'', file_fault = (\<lambda>_. None)\<rparr>"

definition disk_full_env :: env where
  "disk_full_env =
     \<lparr>now = ''2024-05-01T10:00:00'', db_fault = (\<lambda>_. None), send_fault = (\<lambda>_. None),
      metrc_response = Raises ''ReadTimeout'',
      file_fault = (\<lambda>_. Some ''No space left on device'')\<rparr>"

text \<open>The state after the move of the scenario with credentials and a METRC that times out.\<close>

definition queued_world :: world where
  "queued_world =
     flower_world\<lparr>metrc_posts := [[(''licenseNumber'', ''LIC-1''), (''packageLabel'', ''T1''),
                                     (''room'', ''FlowerRoom''),
                                     (''moveDateTime'', ''2024-05-01T10:00:00'')]],
                  pending_metrc_sync := [[(''tag_id'', ''T1''), (''new_location'', ''FlowerRoom''),
                                          (''timestamp'', ''2024-05-01T10:00:00'')]]\<rparr>"

section \<open>Basic facts about the operations\<close>

lemmas scenario_defs =
  veg_world_def calm_env_def to_flower_def flower_event_def flower_world_def
  live_config_def source_config_def
  move_package_def move_try_def move_txn_def broadcast_def sync_with_metrc_def
  sync_try_def mark_synced_def next_id_def py_not_def py_str_def Let_def

lemma veg_to_flower:
  "move_package source_config calm_env to_flower veg_world =
     (Inr [(''message'', ''Package moved successfully'')], flower_world)"
  by (simp add: scenario_defs)

lemma move_txn_Inr:
  assumes "move_txn e tag f l w = Inr (ts, w1)"
  shows "ts = now e"
    and "w1 = w\<lparr>packages := (packages w)(tag \<mapsto>
                     \<lparr>location = Some l, last_updated = Some (now e),
                      status = Some ''Active''\<rparr>),
                  movements := movements w @
                     [\<lparr>movement_id = next_id (movements w), tag_id = tag,
                       from_location = f, to_location = l,
                       timestamp = now e, metrc_synced = False\<rparr>]\<rparr>"
    and "\<exists>row. packages w tag = Some row \<and> location row = Some f"
    and "db_fault e Connect = None" and "db_fault e SelectLocation = None"
    and "db_fault e UpdatePackage = None" and "db_fault e InsertMovement = None"
    and "db_fault e Commit = None"
  using assms unfolding move_txn_def
  by (auto simp: Let_def split: option.splits if_splits)

lemma broadcast_loop_result:
  "broadcast_loop e d cs out =
     ((case find (\<lambda>c. send_fault e c \<noteq> None) cs of None \<Rightarrow> None
        | Some c \<Rightarrow> Some (Exception (the (send_fault e c)))),
      out @ map (\<lambda>c. (c, d)) (takeWhile (\<lambda>c. send_fault e c = None) cs))"
  by (induction cs arbitrary: out) (auto split: option.splits)

lemma broadcast_frame:
  assumes "broadcast e d w = (r, w1)"
  shows "packages w1 = packages w" "movements w1 = movements w"
    "connected_clients w1 = connected_clients w" "metrc_posts w1 = metrc_posts w"
    "pending_metrc_sync w1 = pending_metrc_sync w"
  using assms unfolding broadcast_def by (auto split: prod.splits)

lemma sync_try_frame:
  assumes "sync_try cfg e tag nl ts w = (r, w1)"
  shows "packages w1 = packages w"
    and "movements w1 = movements w \<or> movements w1 = mark_synced tag ts (movements w)"
    and "connected_clients w1 = connected_clients w" and "sent w1 = sent w"
  using assms unfolding sync_try_def
  by (auto simp: Let_def split: http_outcome.splits option.splits if_splits)

lemma sync_with_metrc_frame:
  assumes "sync_with_metrc cfg e tag nl ts w = (r, w1)"
  shows "packages w1 = packages w"
    and "movements w1 = movements w \<or> movements w1 = mark_synced tag ts (movements w)"
    and "connected_clients w1 = connected_clients w" and "sent w1 = sent w"
  using assms sync_try_frame[of cfg e tag nl ts w] unfolding sync_with_metrc_def
  by (auto split: prod.splits option.splits)

text \<open>What a returning call has gone through.\<close>

lemma move_try_Inr:
  assumes "move_try cfg e t f l w = (Inr r, w')"
  shows "\<exists>wc w2. move_txn e t f l w = Inr (now e, wc)
          \<and> broadcast e [(''tag_id'', t), (''from_location'', f),
                             (''to_location'', l), (''timestamp'', now e)] wc = (None, w2)
          \<and> r = [(''message'', ''Package moved successfully'')]
          \<and> (if METRC_API_KEY cfg \<noteq> [] \<and> FACILITY_LICENSE cfg \<noteq> []
              then sync_with_metrc cfg e t l (now e) w2 = (None, w')
              else w' = w2)"
proof (cases "move_txn e t f l w")
  case (Inl ex)
  with assms show ?thesis by (simp add: move_try_def)
next
  case (Inr p)
  obtain ts wc where p: "p = (ts, wc)" by (cases p)
  have ts: "ts = now e" using Inr p move_txn_Inr(1) by blast
  obtain rb w2 where b: "broadcast e [(''tag_id'', t), (''from_location'', f),
                             (''to_location'', l), (''timestamp'', now e)] wc = (rb, w2)"
    by (cases "broadcast e [(''tag_id'', t), (''from_location'', f),
                             (''to_location'', l), (''timestamp'', now e)] wc")
  show ?thesis
    using assms Inr p ts b
    by (auto simp: move_try_def split: option.splits if_splits prod.splits)
qed

lemma move_package_Inr:
  assumes "move_package cfg e data w = (Inr r, w')"
  shows "\<exists>t f l. data ''tag_id'' = Some t \<and> data ''from_location'' = Some f
           \<and> data ''to_location'' = Some l \<and> t \<noteq> [] \<and> f \<noteq> [] \<and> l \<noteq> []
           \<and> move_try cfg e t f l w = (Inr r, w')"
  using assms unfolding move_package_def
  by (auto simp: Let_def py_not_def py_str_def
           split: option.splits if_splits prod.splits sum.splits)

text \<open>The database after a returning call: the row and the record of the commit, the
  record possibly marked synced by the sync that followed.\<close>

lemma move_package_Inr_db:
  assumes "move_package cfg e data w = (Inr r, w')"
  shows "\<exists>t f l. data ''tag_id'' = Some t \<and> data ''from_location'' = Some f
           \<and> data ''to_location'' = Some l
           \<and> move_txn e t f l w = Inr (now e,
                w\<lparr>packages := (packages w)(t \<mapsto>
                     \<lparr>location = Some l, last_updated = Some (now e),
                      status = Some ''Active''\<rparr>),
                  movements := movements w @
                     [\<lparr>movement_id = next_id (movements w), tag_id = t,
                       from_location = f, to_location = l,
                       timestamp = now e, metrc_synced = False\<rparr>]\<rparr>)
           \<and> packages w' = (packages w)(t \<mapsto>
                     \<lparr>location = Some l, last_updated = Some (now e),
                      status = Some ''Active''\<rparr>)
           \<and> (movements w' = movements w @
                     [\<lparr>movement_id = next_id (movements w), tag_id = t,
                       from_location = f, to_location = l,
                       timestamp = now e, metrc_synced = False\<rparr>]
              \<or> movements w' = mark_synced t (now e) (movements w @
                     [\<lparr>movement_id = next_id (movements w), tag_id = t,
                       from_location = f, to_location = l,
                       timestamp = now e, metrc_synced = False\<rparr>]))"
proof -
  from move_package_Inr[OF assms] obtain t f l where
    d: "data ''tag_id'' = Some t" "data ''from_location'' = Some f"
       "data ''to_location'' = Some l"
    and mt: "move_try cfg e t f l w = (Inr r, w')"
    by blast
  from move_try_Inr[OF mt] obtain wc w2 where
    tx: "move_txn e t f l w = Inr (now e, wc)" and
    bc: "broadcast e [(''tag_id'', t), (''from_location'', f),
                      (''to_location'', l), (''timestamp'', now e)] wc = (None, w2)" and
    sy: "if METRC_API_KEY cfg \<noteq> [] \<and> FACILITY_LICENSE cfg \<noteq> []
         then sync_with_metrc cfg e t l (now e) w2 = (None, w')
         else w' = w2"
    by blast
  note wc = move_txn_Inr(2)[OF tx]
  have p2: "packages w2 = packages wc" and m2: "movements w2 = movements wc"
    using broadcast_frame[OF bc] by simp_all
  have p': "packages w' = packages wc"
    using sy p2 sync_with_metrc_frame(1) by (auto split: if_splits)
  have m': "movements w' = movements wc \<or> movements w' = mark_synced t (now e) (movements wc)"
    using sy m2 sync_with_metrc_frame(2)[of cfg e t l "now e" w2 None w']
    by (auto split: if_splits)
  show ?thesis
    using d tx p' m' unfolding wc by auto
qed

section \<open>The claims\<close>

subsection \<open>Status and timestamp of a successful move (C10)\<close>

text \<open>
  C10. Every successful move sets the status of the unit's registry row to \<open>Active\<close>,
  whatever it was before, and the \<open>last_updated\<close> of the row is the very timestamp of
  the movement record the move appended (the last row of the ledger, for this unit).
  That such moves exist, with exactly this row and record, is \<open>move_package_returns\<close>.
\<close>

theorem move_package_status_and_timestamp:
  assumes "move_package cfg e data w = (Inr r, w')"
  shows "\<exists>t row. data ''tag_id'' = Some t \<and> packages w' t = Some row
           \<and> status row = Some ''Active''
           \<and> length (movements w') = Suc (length (movements w))
           \<and> tag_id (last (movements w')) = t
           \<and> last_updated row = Some (timestamp (last (movements w')))"
  using move_package_Inr_db[OF assms] by (auto simp: mark_synced_def)

theorem move_package_status_and_timestamp_witness:
  "move_package source_config calm_env to_flower veg_world
     = (Inr [(''message'', ''Package moved successfully'')], flower_world)
   \<and> map_option status (packages veg_world ''T1'') = Some (Some ''Quarantine'')
   \<and> map_option status
        (packages (snd (move_package source_config calm_env to_flower veg_world)) ''T1'')
       = Some (Some ''Active'')
   \<and> tag_id (last (movements (snd (move_package source_config calm_env to_flower veg_world))))
       = ''T1''
   \<and> map_option last_updated
        (packages (snd (move_package source_config calm_env to_flower veg_world)) ''T1'')
       = Some (Some (timestamp
           (last (movements (snd (move_package source_config calm_env to_flower veg_world))))))"
proof -
  have call: "move_package source_config calm_env to_flower veg_world
     = (Inr [(''message'', ''Package moved successfully'')], flower_world)"
    by (rule veg_to_flower)
  from move_package_status_and_timestamp[OF call]
  obtain t row where
    "to_flower ''tag_id'' = Some t" "packages flower_world t = Some row"
    "status row = Some ''Active''" "tag_id (last (movements flower_world)) = t"
    "last_updated row = Some (timestamp (last (movements flower_world)))"
    by blast
  moreover have "map_option status (packages veg_world ''T1'') = Some (Some ''Quarantine'')"
    by (simp add: veg_world_def)
  ultimately show ?thesis
    using call by (auto simp: to_flower_def)
qed

subsection \<open>The commit is atomic (C4)\<close>

lemma move_txn_write_fault:
  assumes "db_fault e UpdatePackage \<noteq> None \<or> db_fault e InsertMovement \<noteq> None
           \<or> db_fault e Commit \<noteq> None"
  shows "\<exists>ex. move_txn e t f l w = Inl ex"
  using assms unfolding move_txn_def
  by (auto simp: Let_def split: option.splits)

lemma move_package_txn_Inl:
  assumes "move_txn e (py_str (data ''tag_id'')) (py_str (data ''from_location''))
             (py_str (data ''to_location'')) w = Inl ex"
  shows "\<exists>ex'. move_package cfg e data w = (Inl ex', w)"
  using assms unfolding move_package_def move_try_def
  by (auto simp: Let_def)

text \<open>
  C4. A successful move has committed, in one transaction, the registry row with the new
  location, status and \<open>last_updated\<close>, and exactly one new movement record, written with
  \<open>metrc_synced = False\<close> (pending); afterwards the ledger is the old one plus that record,
  up to the synced flags the following sync may set. And when the UPDATE, the INSERT or the
  commit fails, the call fails and the whole state is as before: neither write is visible.
\<close>

theorem move_package_commit_atomic:
  "(\<forall>r w'. move_package cfg e data w = (Inr r, w') \<longrightarrow>
      (\<exists>t f l. data ''tag_id'' = Some t \<and> data ''from_location'' = Some f
         \<and> data ''to_location'' = Some l
         \<and> move_txn e t f l w = Inr (now e,
              w\<lparr>packages := (packages w)(t \<mapsto>
                   \<lparr>location = Some l, last_updated = Some (now e),
                    status = Some ''Active''\<rparr>),
                movements := movements w @
                   [\<lparr>movement_id = next_id (movements w), tag_id = t,
                     from_location = f, to_location = l,
                     timestamp = now e, metrc_synced = False\<rparr>]\<rparr>)
         \<and> packages w' = (packages w)(t \<mapsto>
                   \<lparr>location = Some l, last_updated = Some (now e),
                    status = Some ''Active''\<rparr>)
         \<and> length (movements w') = Suc (length (movements w))
         \<and> take (length (movements w)) (map (\<lambda>m. m\<lparr>metrc_synced := False\<rparr>) (movements w'))
             = map (\<lambda>m. m\<lparr>metrc_synced := False\<rparr>) (movements w)
         \<and> (last (movements w'))\<lparr>metrc_synced := False\<rparr> =
               \<lparr>movement_id = next_id (movements w), tag_id = t,
                     from_location = f, to_location = l,
                     timestamp = now e, metrc_synced = False\<rparr>))
   \<and> (db_fault e UpdatePackage \<noteq> None \<or> db_fault e InsertMovement \<noteq> None
         \<or> db_fault e Commit \<noteq> None \<longrightarrow>
       (\<exists>ex. move_package cfg e data w = (Inl ex, w)))"
proof (intro conjI allI impI)
  fix r w'
  assume a: "move_package cfg e data w = (Inr r, w')"
  have ms: "map (\<lambda>m. m\<lparr>metrc_synced := False\<rparr>) (mark_synced t ts xs)
             = map (\<lambda>m. m\<lparr>metrc_synced := False\<rparr>) xs" for t ts xs
    by (induction xs) (auto simp: mark_synced_def)
  have ln: "length (mark_synced t ts xs) = length xs" for t ts xs
    by (simp add: mark_synced_def)
  have lst: "(last (mark_synced t ts (xs @ [x])))\<lparr>metrc_synced := False\<rparr>
              = x\<lparr>metrc_synced := False\<rparr>" for t ts xs x
    by (simp add: mark_synced_def)
  from move_package_Inr_db[OF a] obtain t f l where
    d: "data ''tag_id'' = Some t" "data ''from_location'' = Some f"
       "data ''to_location'' = Some l"
    and tx: "move_txn e t f l w = Inr (now e,
              w\<lparr>packages := (packages w)(t \<mapsto>
                   \<lparr>location = Some l, last_updated = Some (now e),
                    status = Some ''Active''\<rparr>),
                movements := movements w @
                   [\<lparr>movement_id = next_id (movements w), tag_id = t,
                     from_location = f, to_location = l,
                     timestamp = now e, metrc_synced = False\<rparr>]\<rparr>)"
    and p: "packages w' = (packages w)(t \<mapsto>
                   \<lparr>location = Some l, last_updated = Some (now e),
                    status = Some ''Active''\<rparr>)"
    and m: "movements w' = movements w @
                     [\<lparr>movement_id = next_id (movements w), tag_id = t,
                       from_location = f, to_location = l,
                       timestamp = now e, metrc_synced = False\<rparr>]
              \<or> movements w' = mark_synced t (now e) (movements w @
                     [\<lparr>movement_id = next_id (movements w), tag_id = t,
                       from_location = f, to_location = l,
                       timestamp = now e, metrc_synced = False\<rparr>])"
    by blast
  from m have m1: "length (movements w') = Suc (length (movements w))"
    by (auto simp: ln)
  from m have m2: "take (length (movements w)) (map (\<lambda>m. m\<lparr>metrc_synced := False\<rparr>) (movements w'))
             = map (\<lambda>m. m\<lparr>metrc_synced := False\<rparr>) (movements w)"
    by (auto simp: ms)
  from m have m3: "(last (movements w'))\<lparr>metrc_synced := False\<rparr> =
               \<lparr>movement_id = next_id (movements w), tag_id = t,
                     from_location = f, to_location = l,
                     timestamp = now e, metrc_synced = False\<rparr>"
    by (auto simp: lst)
  show "\<exists>t f l. data ''tag_id'' = Some t \<and> data ''from_location'' = Some f
         \<and> data ''to_location'' = Some l
         \<and> move_txn e t f l w = Inr (now e,
              w\<lparr>packages := (packages w)(t \<mapsto>
                   \<lparr>location = Some l, last_updated = Some (now e),
                    status = Some ''Active''\<rparr>),
                movements := movements w @
                   [\<lparr>movement_id = next_id (movements w), tag_id = t,
                     from_location = f, to_location = l,
                     timestamp = now e, metrc_synced = False\<rparr>]\<rparr>)
         \<and> packages w' = (packages w)(t \<mapsto>
                   \<lparr>location = Some l, last_updated = Some (now e),
                    status = Some ''Active''\<rparr>)
         \<and> length (movements w') = Suc (length (movements w))
         \<and> take (length (movements w)) (map (\<lambda>m. m\<lparr>metrc_synced := False\<rparr>) (movements w'))
             = map (\<lambda>m. m\<lparr>metrc_synced := False\<rparr>) (movements w)
         \<and> (last (movements w'))\<lparr>metrc_synced := False\<rparr> =
               \<lparr>movement_id = next_id (movements w), tag_id = t,
                     from_location = f, to_location = l,
                     timestamp = now e, metrc_synced = False\<rparr>"
    using d tx p m1 m2 m3 by blast
next
  assume "db_fault e UpdatePackage \<noteq> None \<or> db_fault e InsertMovement \<noteq> None
         \<or> db_fault e Commit \<noteq> None"
  from move_txn_write_fault[OF this] obtain ex where
    "move_txn e (py_str (data ''tag_id'')) (py_str (data ''from_location''))
             (py_str (data ''to_location'')) w = Inl ex" by blast
  from move_package_txn_Inl[OF this] show "\<exists>ex. move_package cfg e data w = (Inl ex, w)" .
qed

lemma insert_fails: "move_package source_config insert_fails_env to_flower veg_world
  = (Inl (HTTPException 500 (Str (Exception ''disk I/O error''))), veg_world)"
  by (simp add: scenario_defs insert_fails_env_def)

theorem move_package_commit_atomic_witness:
  "move_package source_config calm_env to_flower veg_world
     = (Inr [(''message'', ''Package moved successfully'')], flower_world)
   \<and> packages flower_world ''T1'' = Some \<lparr>location = Some ''FlowerRoom'',
         last_updated = Some (now calm_env), status = Some ''Active''\<rparr>
   \<and> length (movements flower_world) = Suc (length (movements veg_world))
   \<and> db_fault insert_fails_env InsertMovement \<noteq> None
   \<and> move_package source_config insert_fails_env to_flower veg_world
        = (Inl (HTTPException 500 (Str (Exception ''disk I/O error''))), veg_world)"
  using move_package_commit_atomic[where cfg = source_config and e = calm_env
      and data = to_flower and w = veg_world]
    move_package_commit_atomic[where cfg = source_config and e = insert_fails_env
      and data = to_flower and w = veg_world]
    veg_to_flower insert_fails
  by (auto simp: to_flower_def insert_fails_env_def calm_env_def)

subsection \<open>The value returned (C5)\<close>

text \<open>
  C5, as amended. A successful move returns the fixed acknowledgement
  \<open>{"message": "Package moved successfully"}\<close>; none of the fields of the movement
  record is in it.
\<close>

theorem move_package_returns_acknowledgement:
  assumes "move_package cfg e data w = (Inr r, w')"
  shows "r = [(''message'', ''Package moved successfully'')]"
  using move_package_Inr[OF assms] move_try_Inr by blast

theorem move_package_returns_acknowledgement_witness:
  "fst (move_package source_config calm_env to_flower veg_world)
     = Inr [(''message'', ''Package moved successfully'')]"
  using move_package_returns_acknowledgement[OF veg_to_flower] veg_to_flower by simp

text \<open>C5 as stated fails: the move of the scenario commits a record, and the value returned
  has none of its fields.\<close>

theorem move_package_returns_record_counterexample:
  "move_package source_config calm_env to_flower veg_world
     = (Inr [(''message'', ''Package moved successfully'')], flower_world)
   \<and> movements flower_world =
       [\<lparr>movement_id = 1, tag_id = ''T1'', from_location = ''VegRoom'',
         to_location = ''FlowerRoom'', timestamp = ''2024-05-01T10:00:00'',
         metrc_synced = False\<rparr>]
   \<and> map_of [(''message'', ''Package moved successfully'')] ''id'' = None
   \<and> map_of [(''message'', ''Package moved successfully'')] ''tag_id'' = None
   \<and> map_of [(''message'', ''Package moved successfully'')] ''from_location'' = None
   \<and> map_of [(''message'', ''Package moved successfully'')] ''to_location'' = None
   \<and> map_of [(''message'', ''Package moved successfully'')] ''timestamp'' = None"
  using veg_to_flower by (simp add: flower_world_def)

subsection \<open>The registry follows the ledger (C1)\<close>

lemma move_try_db:
  assumes "move_try cfg e t f l w = (r, w')"
  shows "(\<exists>ex. move_txn e t f l w = Inl ex \<and> r = Inl ex \<and> w' = w)
       \<or> (\<exists>wc. move_txn e t f l w = Inr (now e, wc) \<and> packages w' = packages wc
             \<and> (movements w' = movements wc
                  \<or> movements w' = mark_synced t (now e) (movements wc)))"
proof (cases "move_txn e t f l w")
  case (Inl ex)
  with assms show ?thesis by (simp add: move_try_def)
next
  case (Inr p)
  obtain ts wc where p: "p = (ts, wc)" by (cases p)
  have ts: "ts = now e" using Inr p move_txn_Inr(1) by blast
  obtain rb w2 where b: "broadcast e [(''tag_id'', t), (''from_location'', f),
                             (''to_location'', l), (''timestamp'', now e)] wc = (rb, w2)"
    by (cases "broadcast e [(''tag_id'', t), (''from_location'', f),
                             (''to_location'', l), (''timestamp'', now e)] wc")
  note bf = broadcast_frame(1,2)[OF b]
  obtain rs w3 where s: "sync_with_metrc cfg e t l (now e) w2 = (rs, w3)"
    by (cases "sync_with_metrc cfg e t l (now e) w2")
  note sf = sync_with_metrc_frame(1,2)[OF s]
  have "w' = w2 \<or> w' = w3"
    using assms Inr p ts b s
    by (auto simp: move_try_def split: option.splits if_splits)
  then have "packages w' = packages wc
             \<and> (movements w' = movements wc
                  \<or> movements w' = mark_synced t (now e) (movements wc))"
    using bf sf by auto
  then show ?thesis using Inr p ts by simp
qed

lemma move_package_db:
  assumes "move_package cfg e data w = (r, w')"
  shows "w' = w
       \<or> (\<exists>t f l. packages w' = (packages w)(t \<mapsto>
                     \<lparr>location = Some l, last_updated = Some (now e),
                      status = Some ''Active''\<rparr>)
            \<and> (movements w' = movements w @
                     [\<lparr>movement_id = next_id (movements w), tag_id = t,
                       from_location = f, to_location = l,
                       timestamp = now e, metrc_synced = False\<rparr>]
              \<or> movements w' = mark_synced t (now e) (movements w @
                     [\<lparr>movement_id = next_id (movements w), tag_id = t,
                       from_location = f, to_location = l,
                       timestamp = now e, metrc_synced = False\<rparr>])))"
proof (cases "py_not (data ''tag_id'') \<or> py_not (data ''from_location'')
              \<or> py_not (data ''to_location'')")
  case True
  with assms show ?thesis by (auto simp: move_package_def)
next
  case False
  obtain r1 w1 where mt: "move_try cfg e (py_str (data ''tag_id''))
      (py_str (data ''from_location'')) (py_str (data ''to_location'')) w = (r1, w1)"
    by (cases "move_try cfg e (py_str (data ''tag_id''))
      (py_str (data ''from_location'')) (py_str (data ''to_location'')) w")
  have w1: "w' = w1"
    using assms False mt
    by (auto simp: move_package_def Let_def split: sum.splits if_splits)
  from move_try_db[OF mt] show ?thesis
  proof
    assume "\<exists>ex. move_txn e (py_str (data ''tag_id''))
      (py_str (data ''from_location'')) (py_str (data ''to_location'')) w = Inl ex
      \<and> r1 = Inl ex \<and> w1 = w"
    then show ?thesis using w1 by blast
  next
    assume "\<exists>wc. move_txn e (py_str (data ''tag_id''))
      (py_str (data ''from_location'')) (py_str (data ''to_location'')) w = Inr (now e, wc)
      \<and> packages w1 = packages wc
      \<and> (movements w1 = movements wc
           \<or> movements w1 = mark_synced (py_str (data ''tag_id'')) (now e) (movements wc))"
    then obtain wc where tx: "move_txn e (py_str (data ''tag_id''))
      (py_str (data ''from_location'')) (py_str (data ''to_location'')) w = Inr (now e, wc)"
      and pm: "packages w1 = packages wc"
         "movements w1 = movements wc
           \<or> movements w1 = mark_synced (py_str (data ''tag_id'')) (now e) (movements wc)"
      by blast
    note wc = move_txn_Inr(2)[OF tx]
    show ?thesis
      using pm w1 unfolding wc by auto
  qed
qed

lemma latest_movement_append:
  "latest_movement u (ms @ [m]) = (if tag_id m = u then Some m else latest_movement u ms)"
  by (simp add: latest_movement_def)

lemma find_map_comp: "find P (map g xs) = map_option g (find (\<lambda>x. P (g x)) xs)"
  by (induction xs) auto

lemma latest_movement_mark_synced:
  "map_option to_location (latest_movement u (mark_synced t ts ms))
     = map_option to_location (latest_movement u ms)"
proof -
  let ?g = "\<lambda>m. if tag_id m = t \<and> timestamp m = ts then m\<lparr>metrc_synced := True\<rparr> else m"
  have tag: "(\<lambda>x. tag_id (?g x) = u) = (\<lambda>x. tag_id x = u)"
    by (rule ext) simp
  have "latest_movement u (mark_synced t ts ms)
          = find (\<lambda>m. tag_id m = u) (map ?g (rev ms))"
    by (simp add: latest_movement_def mark_synced_def rev_map)
  also have "\<dots> = map_option ?g (find (\<lambda>x. tag_id (?g x) = u) (rev ms))"
    by (rule find_map_comp)
  also have "\<dots> = map_option ?g (latest_movement u ms)"
    by (simp only: tag latest_movement_def)
  finally have "latest_movement u (mark_synced t ts ms) = map_option ?g (latest_movement u ms)" .
  then show ?thesis
    by (cases "latest_movement u ms") auto
qed

lemma unit_consistent_alt:
  "unit_consistent w u =
     (case map_option to_location (latest_movement u (movements w)) of
        None \<Rightarrow> True
      | Some l \<Rightarrow> map_option location (packages w u) = Some (Some l))"
  by (auto simp: unit_consistent_def split: option.splits)

lemma move_package_unit_consistent:
  assumes "unit_consistent w u"
  shows "unit_consistent (snd (move_package cfg e data w)) u"
proof -
  obtain r w' where mp: "move_package cfg e data w = (r, w')"
    by (cases "move_package cfg e data w")
  from move_package_db[OF mp] have "unit_consistent w' u"
  proof
    assume "w' = w" with assms show ?thesis by simp
  next
    assume "\<exists>t f l. packages w' = (packages w)(t \<mapsto>
                     \<lparr>location = Some l, last_updated = Some (now e),
                      status = Some ''Active''\<rparr>)
            \<and> (movements w' = movements w @
                     [\<lparr>movement_id = next_id (movements w), tag_id = t,
                       from_location = f, to_location = l,
                       timestamp = now e, metrc_synced = False\<rparr>]
              \<or> movements w' = mark_synced t (now e) (movements w @
                     [\<lparr>movement_id = next_id (movements w), tag_id = t,
                       from_location = f, to_location = l,
                       timestamp = now e, metrc_synced = False\<rparr>]))"
    then obtain t f l where p: "packages w' = (packages w)(t \<mapsto>
                     \<lparr>location = Some l, last_updated = Some (now e),
                      status = Some ''Active''\<rparr>)"
      and m: "movements w' = movements w @
                     [\<lparr>movement_id = next_id (movements w), tag_id = t,
                       from_location = f, to_location = l,
                       timestamp = now e, metrc_synced = False\<rparr>]
              \<or> movements w' = mark_synced t (now e) (movements w @
                     [\<lparr>movement_id = next_id (movements w), tag_id = t,
                       from_location = f, to_location = l,
                       timestamp = now e, metrc_synced = False\<rparr>])"
      by blast
    have lm: "map_option to_location (latest_movement u (movements w'))
        = (if t = u then Some l else map_option to_location (latest_movement u (movements w)))"
    proof -
      have "map_option to_location (latest_movement u (movements w'))
          = map_option to_location (latest_movement u (movements w @
                     [\<lparr>movement_id = next_id (movements w), tag_id = t,
                       from_location = f, to_location = l,
                       timestamp = now e, metrc_synced = False\<rparr>]))"
        using m latest_movement_mark_synced by metis
      then show ?thesis by (simp add: latest_movement_append)
    qed
    show ?thesis
      using assms unfolding unit_consistent_alt lm p
      by (auto split: option.splits)
  qed
  with mp show ?thesis by simp
qed

lemma run_unit_consistent:
  "unit_consistent w u \<Longrightarrow> unit_consistent (run cfg w steps) u"
proof (induction steps arbitrary: w)
  case Nil
  then show ?case by simp
next
  case (Cons s steps)
  obtain e data where s: "s = (e, data)" by (cases s)
  show ?case
    unfolding s run.simps
    by (rule Cons.IH) (rule move_package_unit_consistent[OF Cons.prems])
qed

lemma no_history_consistent:
  "latest_movement u (movements w) = None \<Longrightarrow> unit_consistent w u"
  by (simp add: unit_consistent_def)

text \<open>
  C1. Start from a state where the registry agrees with the ledger on unit \<open>u\<close> (a row
  freshly provisioned, with no movement record yet, is such a state:
  \<open>no_history_consistent\<close>). After any sequence of calls of \<open>move_package\<close>, successful or
  not, for any units, the stored location of \<open>u\<close> is the \<open>to_location\<close> of the most recent
  movement record of \<open>u\<close>.
\<close>

theorem registry_location_is_latest_to_location:
  assumes "unit_consistent w u"
    and "latest_movement u (movements (run cfg w steps)) = Some m"
  shows "\<exists>row. packages (run cfg w steps) u = Some row
           \<and> location row = Some (to_location m)"
  using run_unit_consistent[OF assms(1), of cfg steps] assms(2)
  by (auto simp: unit_consistent_def split: option.splits)

lemma two_moves:
  "run live_config veg_world [(calm_env, to_flower), (later_env, to_dry)] = dry_world"
  by (simp add: scenario_defs later_env_def to_dry_def dry_world_def)

lemma next_id_fresh: "m \<in> set ms \<Longrightarrow> movement_id m < next_id ms"
  by (induction ms) (auto simp: next_id_def)

text \<open>So the ledger stays sorted by id: its last record for a unit is also the one with
  the largest id.\<close>

lemma mark_synced_ids: "map movement_id (mark_synced t ts ms) = map movement_id ms"
  by (induction ms) (auto simp: mark_synced_def)

lemma move_package_ids_increasing:
  assumes "sorted_wrt (<) (map movement_id (movements w))"
  shows "sorted_wrt (<) (map movement_id (movements (snd (move_package cfg e data w))))"
proof -
  obtain r w' where mp: "move_package cfg e data w = (r, w')"
    by (cases "move_package cfg e data w")
  have app: "sorted_wrt (<) (map movement_id (movements w) @ [next_id (movements w)])"
    using assms next_id_fresh[of _ "movements w"]
    by (auto simp: sorted_wrt_append)
  from move_package_db[OF mp] have "sorted_wrt (<) (map movement_id (movements w'))"
  proof
    assume "w' = w" with assms show ?thesis by simp
  next
    assume "\<exists>t f l. packages w' = (packages w)(t \<mapsto>
                     \<lparr>location = Some l, last_updated = Some (now e),
                      status = Some ''Active''\<rparr>)
            \<and> (movements w' = movements w @
                     [\<lparr>movement_id = next_id (movements w), tag_id = t,
                       from_location = f, to_location = l,
                       timestamp = now e, metrc_synced = False\<rparr>]
              \<or> movements w' = mark_synced t (now e) (movements w @
                     [\<lparr>movement_id = next_id (movements w), tag_id = t,
                       from_location = f, to_location = l,
                       timestamp = now e, metrc_synced = False\<rparr>]))"
    then obtain t f l where
      "movements w' = movements w @
                     [\<lparr>movement_id = next_id (movements w), tag_id = t,
                       from_location = f, to_location = l,
                       timestamp = now e, metrc_synced = False\<rparr>]
              \<or> movements w' = mark_synced t (now e) (movements w @
                     [\<lparr>movement_id = next_id (movements w), tag_id = t,
                       from_location = f, to_location = l,
                       timestamp = now e, metrc_synced = False\<rparr>])"
      by blast
    then have "map movement_id (movements w') = map movement_id (movements w @
                     [\<lparr>movement_id = next_id (movements w), tag_id = t,
                       from_location = f, to_location = l,
                       timestamp = now e, metrc_synced = False\<rparr>])"
      using mark_synced_ids by metis
    then show ?thesis using app by simp
  qed
  with mp show ?thesis by simp
qed

lemma run_ids_increasing:
  "sorted_wrt (<) (map movement_id (movements w))
     \<Longrightarrow> sorted_wrt (<) (map movement_id (movements (run cfg w steps)))"
proof (induction steps arbitrary: w)
  case Nil
  then show ?case by simp
next
  case (Cons s steps)
  obtain e data where s: "s = (e, data)" by (cases s)
  show ?case
    unfolding s run.simps
    by (rule Cons.IH) (rule move_package_ids_increasing[OF Cons.prems])
qed

theorem registry_location_is_latest_to_location_witness:
  "unit_consistent veg_world ''T1''
   \<and> latest_movement ''T1''
        (movements (run live_config veg_world [(calm_env, to_flower), (later_env, to_dry)]))
       = Some \<lparr>movement_id = 2, tag_id = ''T1'', from_location = ''FlowerRoom'',
               to_location = ''DryRoom'', timestamp = ''2024-05-02T09:30:00'',
               metrc_synced = True\<rparr>
   \<and> map_option location
        (packages (run live_config veg_world [(calm_env, to_flower), (later_env, to_dry)]) ''T1'')
       = Some (Some ''DryRoom'')"
proof -
  have h1: "unit_consistent veg_world ''T1''"
    by (simp add: unit_consistent_def latest_movement_def veg_world_def)
  have h2: "latest_movement ''T1''
        (movements (run live_config veg_world [(calm_env, to_flower), (later_env, to_dry)]))
       = Some \<lparr>movement_id = 2, tag_id = ''T1'', from_location = ''FlowerRoom'',
               to_location = ''DryRoom'', timestamp = ''2024-05-02T09:30:00'',
               metrc_synced = True\<rparr>"
    unfolding two_moves by (simp add: dry_world_def latest_movement_def)
  from registry_location_is_latest_to_location[OF h1 h2] h1 h2
  show ?thesis by auto
qed

subsection \<open>Failing requests\<close>

lemma move_package_missing:
  assumes "py_not (data ''tag_id'') \<or> py_not (data ''from_location'')
           \<or> py_not (data ''to_location'')"
  shows "move_package cfg e data w
           = (Inl (HTTPException 400 (Text ''Missing required fields'')), w)"
  using assms by (auto simp: move_package_def)

lemma move_package_present:
  assumes "data ''tag_id'' = Some t" "t \<noteq> []" "data ''from_location'' = Some f" "f \<noteq> []"
    "data ''to_location'' = Some l" "l \<noteq> []"
  shows "move_package cfg e data w =
           (case move_try cfg e t f l w of
              (Inr r, w1) \<Rightarrow> (Inr r, w1)
            | (Inl ex, w1) \<Rightarrow>
                if db_fault e Connect \<noteq> None then (Inl (UnboundLocalError ''conn''), w1)
                else (Inl (HTTPException 500 (Str ex)), w1))"
  using assms by (simp add: move_package_def py_not_def py_str_def)

lemma move_try_txn_Inl:
  "move_txn e t f l w = Inl ex \<Longrightarrow> move_try cfg e t f l w = (Inl ex, w)"
  by (simp add: move_try_def)

lemma move_package_txn_error:
  assumes "data ''tag_id'' = Some t" "t \<noteq> []" "data ''from_location'' = Some f" "f \<noteq> []"
    "data ''to_location'' = Some l" "l \<noteq> []"
    and "db_fault e Connect = None" and "move_txn e t f l w = Inl ex"
  shows "move_package cfg e data w = (Inl (HTTPException 500 (Str ex)), w)"
  using assms(7,8) move_package_present[OF assms(1-6), of cfg e w]
  by (simp add: move_try_txn_Inl)

lemma sync_with_metrc_exn:
  "sync_with_metrc cfg e t l ts w = (Some ex, w') \<Longrightarrow> \<exists>msg. ex = Exception msg"
  by (auto simp: sync_with_metrc_def split: prod.splits option.splits)

lemma broadcast_exn:
  "broadcast e d w = (Some ex, w') \<Longrightarrow> \<exists>msg. ex = Exception msg"
  by (auto simp: broadcast_def broadcast_loop_result split: prod.splits option.splits)

lemma move_txn_exn:
  assumes "move_txn e t f l w = Inl ex"
  shows "(\<exists>msg. ex = Exception msg) \<or> (\<exists>s. ex = HTTPException 404 (Text s))
         \<or> (\<exists>s. ex = HTTPException 400 (Text s))"
  using assms unfolding move_txn_def
  by (auto simp: Let_def split: option.splits if_splits)

lemma move_try_exn:
  assumes "move_try cfg e t f l w = (Inl ex, w')"
  shows "(\<exists>msg. ex = Exception msg) \<or> (\<exists>s. ex = HTTPException 404 (Text s))
         \<or> (\<exists>s. ex = HTTPException 400 (Text s))"
proof (cases "move_txn e t f l w")
  case (Inl ex')
  with assms have "ex = ex'" by (simp add: move_try_def)
  with Inl move_txn_exn show ?thesis by blast
next
  case (Inr p)
  obtain ts wc where p: "p = (ts, wc)" by (cases p)
  obtain rb w2 where b: "broadcast e [(''tag_id'', t), (''from_location'', f),
                             (''to_location'', l), (''timestamp'', ts)] wc = (rb, w2)"
    by (cases "broadcast e [(''tag_id'', t), (''from_location'', f),
                             (''to_location'', l), (''timestamp'', ts)] wc")
  obtain rs w3 where s: "sync_with_metrc cfg e t l ts w2 = (rs, w3)"
    by (cases "sync_with_metrc cfg e t l ts w2")
  have "rb = Some ex \<or> rs = Some ex"
    using assms Inr p b s
    by (auto simp: move_try_def split: option.splits if_splits)
  then have "\<exists>msg. ex = Exception msg"
    using b s broadcast_exn sync_with_metrc_exn by blast
  then show ?thesis by blast
qed

lemma move_package_never_409_aux:
  assumes "move_package cfg e data w = (Inl ex, w')"
  shows "(ex = HTTPException 400 (Text ''Missing required fields'')
          \<or> ex = UnboundLocalError ''conn''
          \<or> (\<exists>msg. ex = HTTPException 500 (Str (Exception msg)))
          \<or> (\<exists>s. ex = HTTPException 500 (Str (HTTPException 404 (Text s))))
          \<or> (\<exists>s. ex = HTTPException 500 (Str (HTTPException 400 (Text s)))))"
proof (cases "py_not (data ''tag_id'') \<or> py_not (data ''from_location'')
              \<or> py_not (data ''to_location'')")
  case True
  from move_package_missing[OF True, of cfg e w] assms show ?thesis by simp
next
  case False
  obtain r1 w1 where mt: "move_try cfg e (py_str (data ''tag_id''))
      (py_str (data ''from_location'')) (py_str (data ''to_location'')) w = (r1, w1)"
    by (cases "move_try cfg e (py_str (data ''tag_id''))
      (py_str (data ''from_location'')) (py_str (data ''to_location'')) w")
  from assms False mt obtain ex1 where r1: "r1 = Inl ex1"
    and ex: "ex = UnboundLocalError ''conn'' \<or> ex = HTTPException 500 (Str ex1)"
    by (auto simp: move_package_def Let_def split: sum.splits if_splits)
  from move_try_exn[OF mt[unfolded r1]] ex show ?thesis by auto
qed

lemma move_txn_unknown:
  assumes "db_fault e Connect = None" "db_fault e SelectLocation = None" "packages w t = None"
  shows "move_txn e t f l w = Inl (HTTPException 404 (Text (''Package '' @ t @ '' not found'')))"
  using assms by (simp add: move_txn_def)

lemma move_txn_mismatch:
  assumes "db_fault e Connect = None" "db_fault e SelectLocation = None"
    "packages w t = Some row" "location row \<noteq> Some f"
  shows "move_txn e t f l w = Inl (HTTPException 400
           (Text (''Package '' @ t @ '' is in '' @ py_str (location row) @ '', not '' @ f)))"
  using assms by (simp add: move_txn_def)

lemma move_txn_stale_Inl:
  assumes "packages w t = Some row" "location row \<noteq> Some f"
  shows "\<exists>ex. move_txn e t f l w = Inl ex"
  using assms by (auto simp: move_txn_def split: option.splits)

lemma move_package_never_409:
  assumes "move_package cfg e data w = (Inl ex, w')"
  shows "ex \<noteq> HTTPException 409 d" and "root_cause ex \<noteq> HTTPException 409 d"
  using move_package_never_409_aux[OF assms] by auto

lemma move_package_unknown:
  assumes "data ''tag_id'' = Some t" "t \<noteq> []" "\<not> py_not (data ''from_location'')"
    "\<not> py_not (data ''to_location'')"
    and "db_fault e Connect = None" "db_fault e SelectLocation = None" "packages w t = None"
  shows "move_package cfg e data w =
     (Inl (HTTPException 500 (Str (HTTPException 404 (Text (''Package '' @ t @ '' not found''))))), w)"
proof -
  from assms(3,4) obtain f l where fl: "data ''from_location'' = Some f" "f \<noteq> []"
    "data ''to_location'' = Some l" "l \<noteq> []"
    by (auto simp: py_not_def split: option.splits)
  show ?thesis
    by (rule move_package_txn_error[OF assms(1,2) fl assms(5)])
       (rule move_txn_unknown[OF assms(5,6,7)])
qed

lemma move_package_mismatch:
  assumes "data ''tag_id'' = Some t" "t \<noteq> []" "data ''from_location'' = Some f" "f \<noteq> []"
    "\<not> py_not (data ''to_location'')"
    and "db_fault e Connect = None" "db_fault e SelectLocation = None"
    and "packages w t = Some row" "location row \<noteq> Some f"
  shows "move_package cfg e data w =
     (Inl (HTTPException 500 (Str (HTTPException 400
        (Text (''Package '' @ t @ '' is in '' @ py_str (location row) @ '', not '' @ f))))), w)"
proof -
  from assms(5) obtain l where l: "data ''to_location'' = Some l" "l \<noteq> []"
    by (auto simp: py_not_def split: option.splits)
  show ?thesis
    by (rule move_package_txn_error[OF assms(1-4) l assms(6)])
       (rule move_txn_mismatch[OF assms(6-9)])
qed

lemma move_package_stale:
  assumes "data ''tag_id'' = Some t" and "packages w t = Some row"
    and "data ''from_location'' \<noteq> location row"
  shows "\<exists>ex. move_package cfg e data w = (Inl ex, w)"
proof (cases "py_not (data ''tag_id'') \<or> py_not (data ''from_location'')
              \<or> py_not (data ''to_location'')")
  case True
  from move_package_missing[OF True] show ?thesis by blast
next
  case False
  with assms(1) obtain f l where fl: "t \<noteq> []" "data ''from_location'' = Some f" "f \<noteq> []"
    "data ''to_location'' = Some l" "l \<noteq> []"
    by (auto simp: py_not_def split: option.splits)
  from assms(3) fl(2) have "location row \<noteq> Some f" by auto
  from move_txn_stale_Inl[OF assms(2) this] obtain ex0 where
    "move_txn e t f l w = Inl ex0" by blast
  then have "move_try cfg e t f l w = (Inl ex0, w)" by (rule move_try_txn_Inl)
  then show ?thesis
    using move_package_present[OF assms(1) fl, of cfg e w] by auto
qed

subsection \<open>A stale \<open>from_location\<close> (C3)\<close>

text \<open>
  C3, as amended. A move whose tag exists but whose \<open>from_location\<close> is not the stored
  location fails and leaves the whole state as it was: no movement record, the registry
  row untouched, nothing sent to any observer, nothing posted to METRC, nothing queued.
  The error is never a 409: the program has no Conflict; for well-formed fields and a
  readable registry the exception raised at the check (line 81) has status 400 and names
  the stored location.
\<close>

theorem stale_move_fails_without_effect:
  assumes "data ''tag_id'' = Some t" and "packages w t = Some row"
    and "data ''from_location'' \<noteq> location row"
  shows "\<exists>ex. move_package cfg e data w = (Inl ex, w)
           \<and> (\<forall>d. ex \<noteq> HTTPException 409 d)
           \<and> (t \<noteq> [] \<and> \<not> py_not (data ''from_location'') \<and> \<not> py_not (data ''to_location'')
                \<and> db_fault e Connect = None \<and> db_fault e SelectLocation = None
              \<longrightarrow> root_cause ex = HTTPException 400
                    (Text (''Package '' @ t @ '' is in '' @ py_str (location row)
                             @ '', not '' @ py_str (data ''from_location''))))"
proof -
  from move_package_stale[OF assms] obtain ex where
    ex: "move_package cfg e data w = (Inl ex, w)" by blast
  have n: "\<forall>d. ex \<noteq> HTTPException 409 d"
    using move_package_never_409(1)[OF ex] by blast
  have rc: "root_cause ex = HTTPException 400
                    (Text (''Package '' @ t @ '' is in '' @ py_str (location row)
                             @ '', not '' @ py_str (data ''from_location'')))"
    if h: "t \<noteq> []" "\<not> py_not (data ''from_location'')" "\<not> py_not (data ''to_location'')"
      "db_fault e Connect = None" "db_fault e SelectLocation = None"
  proof -
    from h(2) obtain f where f: "data ''from_location'' = Some f" "f \<noteq> []"
      by (auto simp: py_not_def split: option.splits)
    from assms(3) f(1) have ne: "location row \<noteq> Some f" by auto
    from move_package_mismatch[OF assms(1) h(1) f h(3,4,5) assms(2) ne, of cfg] ex f(1)
    show ?thesis by (simp add: py_str_def)
  qed
  show ?thesis
  proof (intro exI[of _ ex] conjI impI)
    show "move_package cfg e data w = (Inl ex, w)" by (rule ex)
    show "\<forall>d. ex \<noteq> HTTPException 409 d" by (rule n)
  next
    assume "t \<noteq> [] \<and> \<not> py_not (data ''from_location'') \<and> \<not> py_not (data ''to_location'')
                \<and> db_fault e Connect = None \<and> db_fault e SelectLocation = None"
    then show "root_cause ex = HTTPException 400
                    (Text (''Package '' @ t @ '' is in '' @ py_str (location row)
                             @ '', not '' @ py_str (data ''from_location'')))"
      using rc by simp
  qed
qed

lemma stale_in_flower:
  "move_package source_config later_env stale_request flower_world =
     (Inl (HTTPException 500 (Str (HTTPException 400
        (Text ''Package T1 is in FlowerRoom, not VegRoom'')))), flower_world)"
  by (simp add: scenario_defs later_env_def stale_request_def)

theorem stale_move_fails_without_effect_witness:
  "stale_request ''tag_id'' = Some ''T1''
   \<and> map_option location (packages flower_world ''T1'') = Some (Some ''FlowerRoom'')
   \<and> stale_request ''from_location'' = Some ''VegRoom''
   \<and> snd (move_package source_config later_env stale_request flower_world) = flower_world
   \<and> root_cause (projl (fst (move_package source_config later_env stale_request flower_world)))
       = HTTPException 400 (Text ''Package T1 is in FlowerRoom, not VegRoom'')"
  using stale_move_fails_without_effect[where data = stale_request and t = "''T1''"
      and w = flower_world and cfg = source_config and e = later_env
      and row = "\<lparr>location = Some ''FlowerRoom'', last_updated = Some ''2024-05-01T10:00:00'',
                  status = Some ''Active''\<rparr>"]
  by (simp add: stale_in_flower) (simp add: stale_request_def flower_world_def)

text \<open>C3 as stated fails in the spec's own scenario: with \<open>T1\<close> in \<open>FlowerRoom\<close>, a move from
  \<open>VegRoom\<close> does not fail with a Conflict (409); the error is the status 400 of line 81,
  caught by line 109 and re-raised with status 500.\<close>

theorem stale_move_conflict_counterexample:
  "packages flower_world ''T1'' = Some \<lparr>location = Some ''FlowerRoom'',
       last_updated = Some ''2024-05-01T10:00:00'', status = Some ''Active''\<rparr>
   \<and> stale_request ''from_location'' = Some ''VegRoom''
   \<and> fst (move_package source_config later_env stale_request flower_world) =
        Inl (HTTPException 500 (Str (HTTPException 400
               (Text ''Package T1 is in FlowerRoom, not VegRoom''))))"
  by (simp add: stale_in_flower) (simp add: stale_request_def flower_world_def)

subsection \<open>The order of the checks (C9)\<close>

text \<open>
  C9, as amended. The first check is that of line 68: when \<open>tag_id\<close>, \<open>from_location\<close> or
  \<open>to_location\<close> is missing or empty the request fails with status 400, whatever the
  registry holds. Only then is the tag looked up: for an unknown tag the exception raised
  is the 404 of line 79, whatever \<open>from_location\<close> is; and for a known tag with another
  stored location it is the 400 of line 81, whatever the later statements would do.
\<close>

theorem precondition_order:
  "(py_not (data ''tag_id'') \<or> py_not (data ''from_location'') \<or> py_not (data ''to_location'')
      \<longrightarrow> move_package cfg e data w
            = (Inl (HTTPException 400 (Text ''Missing required fields'')), w))
   \<and> (data ''tag_id'' = Some t \<and> t \<noteq> [] \<and> \<not> py_not (data ''from_location'')
        \<and> \<not> py_not (data ''to_location'')
        \<and> db_fault e Connect = None \<and> db_fault e SelectLocation = None
        \<and> packages w t = None
      \<longrightarrow> (\<exists>ex. move_package cfg e data w = (Inl ex, w)
             \<and> root_cause ex = HTTPException 404 (Text (''Package '' @ t @ '' not found''))))
   \<and> (data ''tag_id'' = Some t \<and> t \<noteq> [] \<and> data ''from_location'' = Some f \<and> f \<noteq> []
        \<and> \<not> py_not (data ''to_location'')
        \<and> db_fault e Connect = None \<and> db_fault e SelectLocation = None
        \<and> packages w t = Some row \<and> location row \<noteq> Some f
      \<longrightarrow> (\<exists>ex. move_package cfg e data w = (Inl ex, w)
             \<and> root_cause ex = HTTPException 400
                  (Text (''Package '' @ t @ '' is in '' @ py_str (location row)
                           @ '', not '' @ f))))"
  using move_package_missing[of data cfg e w]
    move_package_unknown[of data t e w cfg]
    move_package_mismatch[of data t f e w row cfg]
  by auto

lemma ghost_nowhere:
  "move_package source_config calm_env ghost_nowhere_request veg_world =
     (Inl (HTTPException 400 (Text ''Missing required fields'')), veg_world)"
  by (simp add: scenario_defs ghost_nowhere_request_def)

lemma ghost_in_veg:
  "move_package source_config calm_env ghost_request veg_world =
     (Inl (HTTPException 500 (Str (HTTPException 404 (Text ''Package T9 not found'')))),
      veg_world)"
  by (simp add: scenario_defs ghost_request_def)

lemma wrong_room_in_veg:
  "move_package source_config calm_env wrong_room_request veg_world =
     (Inl (HTTPException 500 (Str (HTTPException 400
        (Text ''Package T1 is in VegRoom, not DryRoom'')))), veg_world)"
  by (simp add: scenario_defs wrong_room_request_def)

lemma select_fails:
  "move_package source_config select_fails_env to_flower veg_world =
     (Inl (HTTPException 500 (Str (Exception ''no such table: packages''))), veg_world)"
  by (simp add: scenario_defs select_fails_env_def)

theorem precondition_order_witness:
  "py_not (ghost_nowhere_request ''to_location'')
   \<and> move_package source_config calm_env ghost_nowhere_request veg_world
       = (Inl (HTTPException 400 (Text ''Missing required fields'')), veg_world)
   \<and> packages veg_world ''T9'' = None
   \<and> root_cause (projl (fst (move_package source_config calm_env ghost_request veg_world)))
       = HTTPException 404 (Text ''Package T9 not found'')
   \<and> map_option location (packages veg_world ''T1'') = Some (Some ''VegRoom'')
   \<and> root_cause (projl (fst (move_package source_config calm_env wrong_room_request veg_world)))
       = HTTPException 400 (Text ''Package T1 is in VegRoom, not DryRoom'')"
  using precondition_order[where data = ghost_nowhere_request and cfg = source_config
      and e = calm_env and w = veg_world]
    precondition_order[where data = ghost_request and cfg = source_config
      and e = calm_env and w = veg_world and t = "''T9''"]
    precondition_order[where data = wrong_room_request and cfg = source_config
      and e = calm_env and w = veg_world and t = "''T1''" and f = "''DryRoom''"
      and row = "\<lparr>location = Some ''VegRoom'', last_updated = None,
                  status = Some ''Quarantine''\<rparr>"]
  by (simp add: ghost_nowhere ghost_in_veg wrong_room_in_veg)
     (simp add: ghost_nowhere_request_def veg_world_def py_not_def)

text \<open>C9 as stated fails: an unknown tag with an empty \<open>to_location\<close> is answered with
  ``Missing required fields'' (400), not with NotFound.\<close>

theorem not_found_before_fields_counterexample:
  "packages veg_world ''T9'' = None
   \<and> ghost_nowhere_request ''tag_id'' = Some ''T9''
   \<and> ghost_nowhere_request ''to_location'' = Some []
   \<and> fst (move_package source_config calm_env ghost_nowhere_request veg_world)
       = Inl (HTTPException 400 (Text ''Missing required fields''))"
  by (simp add: ghost_nowhere) (simp add: ghost_nowhere_request_def veg_world_def)

subsection \<open>Errors and their status codes (C2)\<close>

text \<open>
  C2, as amended. No failing request is answered with 409, and no exception raised inside
  has that status. A missing or empty field gives status 400. With the fields present and
  the connection open, a failing SELECT, UPDATE, INSERT or commit gives status 500 with
  the storage error, and nothing is stored. The check of an unknown tag raises 404 and the
  check of a \<open>from_location\<close> mismatch raises 400 (there is no 409); the status under
  which these two reach the caller is not part of this statement.
\<close>

theorem move_package_error_codes:
  "(\<forall>ex w' d. move_package cfg e data w = (Inl ex, w')
       \<longrightarrow> ex \<noteq> HTTPException 409 d \<and> root_cause ex \<noteq> HTTPException 409 d)
   \<and> (py_not (data ''tag_id'') \<or> py_not (data ''from_location'') \<or> py_not (data ''to_location'')
      \<longrightarrow> move_package cfg e data w
            = (Inl (HTTPException 400 (Text ''Missing required fields'')), w))
   \<and> (data ''tag_id'' = Some t \<and> t \<noteq> [] \<and> data ''from_location'' = Some f \<and> f \<noteq> []
        \<and> data ''to_location'' = Some l \<and> l \<noteq> [] \<and> db_fault e Connect = None
      \<longrightarrow> (db_fault e SelectLocation = Some msg
             \<longrightarrow> move_package cfg e data w
                   = (Inl (HTTPException 500 (Str (Exception msg))), w))
         \<and> (db_fault e SelectLocation = None \<and> packages w t = Some row
              \<and> location row = Some f
              \<and> (db_fault e UpdatePackage = Some msg
                  \<or> db_fault e UpdatePackage = None \<and> db_fault e InsertMovement = Some msg
                  \<or> db_fault e UpdatePackage = None \<and> db_fault e InsertMovement = None
                      \<and> db_fault e Commit = Some msg)
             \<longrightarrow> move_package cfg e data w
                   = (Inl (HTTPException 500 (Str (Exception msg))), w))
         \<and> (db_fault e SelectLocation = None \<and> packages w t = None
             \<longrightarrow> (\<exists>ex. move_package cfg e data w = (Inl ex, w)
                    \<and> root_cause ex
                        = HTTPException 404 (Text (''Package '' @ t @ '' not found''))))
         \<and> (db_fault e SelectLocation = None \<and> packages w t = Some row
              \<and> location row \<noteq> Some f
             \<longrightarrow> (\<exists>ex. move_package cfg e data w = (Inl ex, w)
                    \<and> root_cause ex = HTTPException 400
                        (Text (''Package '' @ t @ '' is in '' @ py_str (location row)
                                 @ '', not '' @ f)))))"
proof (intro conjI allI impI)
  fix ex w' d
  assume "move_package cfg e data w = (Inl ex, w')"
  from move_package_never_409[OF this]
  show "ex \<noteq> HTTPException 409 d" and "root_cause ex \<noteq> HTTPException 409 d" .
next
  assume "py_not (data ''tag_id'') \<or> py_not (data ''from_location'')
          \<or> py_not (data ''to_location'')"
  then show "move_package cfg e data w
            = (Inl (HTTPException 400 (Text ''Missing required fields'')), w)"
    by (rule move_package_missing)
next
  assume p: "data ''tag_id'' = Some t \<and> t \<noteq> [] \<and> data ''from_location'' = Some f \<and> f \<noteq> []
        \<and> data ''to_location'' = Some l \<and> l \<noteq> [] \<and> db_fault e Connect = None"
    and s: "db_fault e SelectLocation = Some msg"
  have "move_txn e t f l w = Inl (Exception msg)"
    using p s by (simp add: move_txn_def)
  with p show "move_package cfg e data w
                   = (Inl (HTTPException 500 (Str (Exception msg))), w)"
    by (intro move_package_txn_error) auto
next
  assume p: "data ''tag_id'' = Some t \<and> t \<noteq> [] \<and> data ''from_location'' = Some f \<and> f \<noteq> []
        \<and> data ''to_location'' = Some l \<and> l \<noteq> [] \<and> db_fault e Connect = None"
    and s: "db_fault e SelectLocation = None \<and> packages w t = Some row
              \<and> location row = Some f
              \<and> (db_fault e UpdatePackage = Some msg
                  \<or> db_fault e UpdatePackage = None \<and> db_fault e InsertMovement = Some msg
                  \<or> db_fault e UpdatePackage = None \<and> db_fault e InsertMovement = None
                      \<and> db_fault e Commit = Some msg)"
  have "move_txn e t f l w = Inl (Exception msg)"
    using p s by (auto simp: move_txn_def)
  with p show "move_package cfg e data w
                   = (Inl (HTTPException 500 (Str (Exception msg))), w)"
    by (intro move_package_txn_error) auto
next
  assume p: "data ''tag_id'' = Some t \<and> t \<noteq> [] \<and> data ''from_location'' = Some f \<and> f \<noteq> []
        \<and> data ''to_location'' = Some l \<and> l \<noteq> [] \<and> db_fault e Connect = None"
    and s: "db_fault e SelectLocation = None \<and> packages w t = None"
  have "move_package cfg e data w =
     (Inl (HTTPException 500 (Str (HTTPException 404 (Text (''Package '' @ t @ '' not found''))))), w)"
    using p s by (intro move_package_unknown) (auto simp: py_not_def)
  then show "\<exists>ex. move_package cfg e data w = (Inl ex, w)
                    \<and> root_cause ex
                        = HTTPException 404 (Text (''Package '' @ t @ '' not found''))"
    by simp
next
  assume p: "data ''tag_id'' = Some t \<and> t \<noteq> [] \<and> data ''from_location'' = Some f \<and> f \<noteq> []
        \<and> data ''to_location'' = Some l \<and> l \<noteq> [] \<and> db_fault e Connect = None"
    and s: "db_fault e SelectLocation = None \<and> packages w t = Some row
              \<and> location row \<noteq> Some f"
  have "move_package cfg e data w =
     (Inl (HTTPException 500 (Str (HTTPException 400
        (Text (''Package '' @ t @ '' is in '' @ py_str (location row) @ '', not '' @ f))))), w)"
    using p s by (intro move_package_mismatch) (auto simp: py_not_def)
  then show "\<exists>ex. move_package cfg e data w = (Inl ex, w)
                    \<and> root_cause ex = HTTPException 400
                        (Text (''Package '' @ t @ '' is in '' @ py_str (location row)
                                 @ '', not '' @ f))"
    by simp
qed

theorem move_package_error_codes_witness:
  "fst (move_package source_config calm_env ghost_request veg_world)
       \<noteq> Inl (HTTPException 409 (Text ''Conflict''))
   \<and> py_not (ghost_nowhere_request ''to_location'')
   \<and> move_package source_config calm_env ghost_nowhere_request veg_world
       = (Inl (HTTPException 400 (Text ''Missing required fields'')), veg_world)
   \<and> db_fault select_fails_env SelectLocation = Some ''no such table: packages''
   \<and> move_package source_config select_fails_env to_flower veg_world
       = (Inl (HTTPException 500 (Str (Exception ''no such table: packages''))), veg_world)
   \<and> db_fault insert_fails_env InsertMovement = Some ''disk I/O error''
   \<and> move_package source_config insert_fails_env to_flower veg_world
       = (Inl (HTTPException 500 (Str (Exception ''disk I/O error''))), veg_world)
   \<and> packages veg_world ''T9'' = None
   \<and> root_cause (projl (fst (move_package source_config calm_env ghost_request veg_world)))
       = HTTPException 404 (Text ''Package T9 not found'')
   \<and> map_option location (packages veg_world ''T1'') = Some (Some ''VegRoom'')
   \<and> root_cause (projl (fst (move_package source_config calm_env wrong_room_request veg_world)))
       = HTTPException 400 (Text ''Package T1 is in VegRoom, not DryRoom'')"
  using move_package_error_codes[where data = ghost_request and cfg = source_config
      and e = calm_env and w = veg_world and t = "''T9''" and f = "''VegRoom''"
      and l = "''FlowerRoom''"]
    move_package_error_codes[where data = ghost_nowhere_request and cfg = source_config
      and e = calm_env and w = veg_world]
    move_package_error_codes[where data = to_flower and cfg = source_config
      and e = select_fails_env and w = veg_world and t = "''T1''" and f = "''VegRoom''"
      and l = "''FlowerRoom''" and msg = "''no such table: packages''"]
    move_package_error_codes[where data = to_flower and cfg = source_config
      and e = insert_fails_env and w = veg_world and t = "''T1''" and f = "''VegRoom''"
      and l = "''FlowerRoom''" and msg = "''disk I/O error''"
      and row = "\<lparr>location = Some ''VegRoom'', last_updated = None,
                  status = Some ''Quarantine''\<rparr>"]
    move_package_error_codes[where data = wrong_room_request and cfg = source_config
      and e = calm_env and w = veg_world and t = "''T1''" and f = "''DryRoom''"
      and l = "''FlowerRoom''"
      and row = "\<lparr>location = Some ''VegRoom'', last_updated = None,
                  status = Some ''Quarantine''\<rparr>"]
  by (simp add: ghost_nowhere ghost_in_veg wrong_room_in_veg select_fails insert_fails)
     (simp add: ghost_nowhere_request_def veg_world_def py_not_def select_fails_env_def
        insert_fails_env_def)

text \<open>C2 as stated fails: the response for an unknown tag has status 500, not 404, and the
  response for a \<open>from_location\<close> mismatch has status 500 wrapping a 400, not 409.\<close>

theorem error_code_mapping_counterexample:
  "packages veg_world ''T9'' = None
   \<and> ghost_request ''tag_id'' = Some ''T9''
   \<and> fst (move_package source_config calm_env ghost_request veg_world)
       = Inl (HTTPException 500 (Str (HTTPException 404 (Text ''Package T9 not found''))))
   \<and> map_option location (packages veg_world ''T1'') = Some (Some ''VegRoom'')
   \<and> wrong_room_request ''from_location'' = Some ''DryRoom''
   \<and> fst (move_package source_config calm_env wrong_room_request veg_world)
       = Inl (HTTPException 500 (Str (HTTPException 400
               (Text ''Package T1 is in VegRoom, not DryRoom''))))"
  by (simp add: ghost_in_veg wrong_room_in_veg)
     (simp add: ghost_request_def wrong_room_request_def veg_world_def)

subsection \<open>The fan-out (C8)\<close>

lemma broadcast_result:
  "broadcast e d w =
     ((case find (\<lambda>c. send_fault e c \<noteq> None) (connected_clients w) of None \<Rightarrow> None
        | Some c \<Rightarrow> Some (Exception (the (send_fault e c)))),
      w\<lparr>sent := sent w @ map (\<lambda>c. (c, d))
                  (takeWhile (\<lambda>c. send_fault e c = None) (connected_clients w))\<rparr>)"
  by (simp add: broadcast_def broadcast_loop_result)

lemma broadcast_loop_all_ok:
  "\<forall>c \<in> set cs. send_fault e c = None
     \<Longrightarrow> broadcast_loop e d cs out = (None, out @ map (\<lambda>c. (c, d)) cs)"
  by (induction cs arbitrary: out) auto

lemma broadcast_loop_None_iff:
  "fst (broadcast_loop e d cs out) = None \<longleftrightarrow> (\<forall>c \<in> set cs. send_fault e c = None)"
  by (induction cs arbitrary: out) (auto split: option.splits)

lemma broadcast_all_ok:
  assumes "\<forall>c \<in> set (connected_clients w). send_fault e c = None"
  shows "broadcast e d w = (None, w\<lparr>sent := sent w @ map (\<lambda>c. (c, d)) (connected_clients w)\<rparr>)"
  by (simp add: broadcast_def broadcast_loop_all_ok[OF assms])

lemma broadcast_None_iff:
  "fst (broadcast e d w) = None \<longleftrightarrow> (\<forall>c \<in> set (connected_clients w). send_fault e c = None)"
proof -
  obtain r out where l: "broadcast_loop e d (connected_clients w) (sent w) = (r, out)"
    by (cases "broadcast_loop e d (connected_clients w) (sent w)")
  have "fst (broadcast e d w) = r" by (simp add: broadcast_def l)
  moreover have "r = None \<longleftrightarrow> (\<forall>c \<in> set (connected_clients w). send_fault e c = None)"
    using broadcast_loop_None_iff[of e d "connected_clients w" "sent w"] l by simp
  ultimately show ?thesis by simp
qed

lemma sync_with_metrc_sent:
  "sync_with_metrc cfg e t l ts w = (r, w') \<Longrightarrow> sent w' = sent w"
  by (rule sync_with_metrc_frame(4))

text \<open>
  C8, as amended. \<open>broadcast\<close> sends the event to the registered observers one after the
  other, in the order of the loop: the observers before the first failing send have
  received it, that observer and all after it receive nothing, and \<open>broadcast\<close> returns
  normally exactly when no send fails. When no send fails every registered observer
  receives the event once; so after a successful move each of them has received the
  event of that move.
\<close>

theorem broadcast_delivery:
  "sent (snd (broadcast e d w))
      = sent w @ map (\<lambda>c. (c, d))
          (takeWhile (\<lambda>c. send_fault e c = None) (connected_clients w))
   \<and> (fst (broadcast e d w) = None
        \<longleftrightarrow> (\<forall>c \<in> set (connected_clients w). send_fault e c = None))
   \<and> ((\<forall>c \<in> set (connected_clients w). send_fault e c = None)
        \<longrightarrow> sent (snd (broadcast e d w)) = sent w @ map (\<lambda>c. (c, d)) (connected_clients w))
   \<and> (\<forall>r w'. move_package cfg e data w = (Inr r, w')
        \<longrightarrow> sent w' = sent w @ map
              (\<lambda>c. (c, [(''tag_id'', py_str (data ''tag_id'')),
                        (''from_location'', py_str (data ''from_location'')),
                        (''to_location'', py_str (data ''to_location'')),
                        (''timestamp'', now e)]))
              (connected_clients w))"
proof (intro conjI allI impI)
  show "sent (snd (broadcast e d w))
      = sent w @ map (\<lambda>c. (c, d))
          (takeWhile (\<lambda>c. send_fault e c = None) (connected_clients w))"
    by (simp add: broadcast_result)
  show "fst (broadcast e d w) = None
        \<longleftrightarrow> (\<forall>c \<in> set (connected_clients w). send_fault e c = None)"
    by (rule broadcast_None_iff)
next
  assume "\<forall>c \<in> set (connected_clients w). send_fault e c = None"
  then show "sent (snd (broadcast e d w)) = sent w @ map (\<lambda>c. (c, d)) (connected_clients w)"
    by (simp add: broadcast_all_ok)
next
  fix r w'
  assume a: "move_package cfg e data w = (Inr r, w')"
  from move_package_Inr[OF a] obtain t f l where
    d: "data ''tag_id'' = Some t" "data ''from_location'' = Some f"
       "data ''to_location'' = Some l"
    and mt: "move_try cfg e t f l w = (Inr r, w')"
    by blast
  from move_try_Inr[OF mt] obtain wc w2 where
    tx: "move_txn e t f l w = Inr (now e, wc)" and
    bc: "broadcast e [(''tag_id'', t), (''from_location'', f),
                      (''to_location'', l), (''timestamp'', now e)] wc = (None, w2)" and
    sy: "if METRC_API_KEY cfg \<noteq> [] \<and> FACILITY_LICENSE cfg \<noteq> []
         then sync_with_metrc cfg e t l (now e) w2 = (None, w')
         else w' = w2"
    by blast
  note wc = move_txn_Inr(2)[OF tx]
  have cw: "connected_clients wc = connected_clients w" and sw: "sent wc = sent w"
    unfolding wc by simp_all
  have ok: "\<forall>c \<in> set (connected_clients wc). send_fault e c = None"
    using broadcast_None_iff[of e _ wc] bc by (metis fst_conv)
  have s2: "sent w2 = sent w @ map (\<lambda>c. (c, [(''tag_id'', t), (''from_location'', f),
                      (''to_location'', l), (''timestamp'', now e)])) (connected_clients w)"
  proof -
    have "w2 = wc\<lparr>sent := sent wc @ map (\<lambda>c. (c, [(''tag_id'', t), (''from_location'', f),
                      (''to_location'', l), (''timestamp'', now e)])) (connected_clients wc)\<rparr>"
      using bc broadcast_all_ok[OF ok] by simp
    then show ?thesis by (simp add: cw sw)
  qed
  have "sent w' = sent w2"
    using sy sync_with_metrc_sent by (auto split: if_splits)
  with s2 d show "sent w' = sent w @ map
              (\<lambda>c. (c, [(''tag_id'', py_str (data ''tag_id'')),
                        (''from_location'', py_str (data ''from_location'')),
                        (''to_location'', py_str (data ''to_location'')),
                        (''timestamp'', now e)]))
              (connected_clients w)"
    by (simp add: py_str_def)
qed

lemma first_down:
  "broadcast first_down_env flower_event veg_world
     = (Some (Exception ''WebSocketDisconnect''), veg_world)"
  by (simp add: scenario_defs first_down_env_def)

lemma first_down_move:
  "move_package source_config first_down_env to_flower veg_world
     = (Inl (HTTPException 500 (Str (Exception ''WebSocketDisconnect''))),
        flower_world\<lparr>sent := []\<rparr>)"
  by (simp add: scenario_defs first_down_env_def)

theorem broadcast_delivery_witness:
  "map (send_fault calm_env) (connected_clients veg_world) = [None, None]
   \<and> sent (snd (broadcast calm_env flower_event veg_world))
       = [(1, flower_event), (2, flower_event)]
   \<and> sent flower_world = [(1, flower_event), (2, flower_event)]"
  using broadcast_delivery[where e = calm_env and d = flower_event and w = veg_world
      and cfg = source_config and data = to_flower] veg_to_flower
  by (simp add: veg_world_def calm_env_def flower_world_def)

text \<open>C8 as stated fails: with observers 1 and 2 registered and the send to 1 failing, observer
  2, whose send would succeed, receives nothing; the exception leaves \<open>broadcast\<close>, and
  the move, though committed, is answered with status 500.\<close>

theorem broadcast_isolation_counterexample:
  "connected_clients veg_world = [1, 2]
   \<and> send_fault first_down_env 1 = Some ''WebSocketDisconnect''
   \<and> send_fault first_down_env 2 = None
   \<and> broadcast first_down_env flower_event veg_world
       = (Some (Exception ''WebSocketDisconnect''), veg_world)
   \<and> sent veg_world = []
   \<and> move_package source_config first_down_env to_flower veg_world
       = (Inl (HTTPException 500 (Str (Exception ''WebSocketDisconnect''))),
          flower_world\<lparr>sent := []\<rparr>)"
  by (simp add: first_down first_down_move) (simp add: veg_world_def first_down_env_def)

subsection \<open>A failing submission to METRC (C6)\<close>

lemma sync_failed:
  assumes "\<forall>body. metrc_response e \<noteq> Response 200 body"
    and "file_fault e AppendFallback = None"
  shows "sync_with_metrc cfg e t l ts w =
           (None, w\<lparr>metrc_posts := metrc_posts w @
                        [[(''licenseNumber'', FACILITY_LICENSE cfg), (''packageLabel'', t),
                          (''room'', l), (''moveDateTime'', ts)]],
                     pending_metrc_sync := pending_metrc_sync w @
                        [[(''licenseNumber'', FACILITY_LICENSE cfg), (''packageLabel'', t),
                          (''room'', l), (''moveDateTime'', ts)]]\<rparr>)
       \<or> sync_with_metrc cfg e t l ts w =
           (None, w\<lparr>metrc_posts := metrc_posts w @
                        [[(''licenseNumber'', FACILITY_LICENSE cfg), (''packageLabel'', t),
                          (''room'', l), (''moveDateTime'', ts)]],
                     pending_metrc_sync := pending_metrc_sync w @
                        [[(''tag_id'', t), (''new_location'', l), (''timestamp'', ts)]]\<rparr>)"
  using assms
  by (cases "metrc_response e")
     (auto simp: sync_with_metrc_def sync_try_def Let_def split: option.splits)

lemma sync_outcome:
  assumes "file_fault e AppendFallback = None"
  shows "\<exists>w'. sync_with_metrc cfg e t l ts w = (None, w')
           \<and> ((movements w' = mark_synced t ts (movements w)
                  \<and> pending_metrc_sync w' = pending_metrc_sync w)
               \<or> (movements w' = movements w
                  \<and> (\<exists>entry. pending_metrc_sync w' = pending_metrc_sync w @ [entry]
                       \<and> (map_of entry ''packageLabel'' = Some t
                            \<and> map_of entry ''moveDateTime'' = Some ts
                          \<or> map_of entry ''tag_id'' = Some t
                            \<and> map_of entry ''timestamp'' = Some ts))))"
  using assms
  by (cases "metrc_response e")
     (auto simp: sync_with_metrc_def sync_try_def Let_def split: option.splits)

lemma move_try_live:
  assumes en: "METRC_API_KEY cfg \<noteq> []" "FACILITY_LICENSE cfg \<noteq> []"
    and tx: "move_txn e t f l w = Inr (ts, wc)"
    and ok: "\<forall>c \<in> set (connected_clients w). send_fault e c = None"
  shows "move_try cfg e t f l w =
           (case sync_with_metrc cfg e t l ts
                   (wc\<lparr>sent := sent w @ map (\<lambda>c. (c, [(''tag_id'', t), (''from_location'', f),
                             (''to_location'', l), (''timestamp'', ts)])) (connected_clients w)\<rparr>) of
              (Some ex, w3) \<Rightarrow> (Inl ex, w3)
            | (None, w3) \<Rightarrow> (Inr [(''message'', ''Package moved successfully'')], w3))"
proof -
  note wc = move_txn_Inr(2)[OF tx]
  have cw: "connected_clients wc = connected_clients w" and sw: "sent wc = sent w"
    unfolding wc by simp_all
  have ok': "\<forall>c \<in> set (connected_clients wc). send_fault e c = None"
    using ok cw by simp
  show ?thesis
    by (simp add: move_try_def tx broadcast_all_ok[OF ok'] en cw sw)
qed

text \<open>
  C6, as amended. Let the sync be enabled (both credentials set), the transaction of a
  move commit, every send of the fan-out succeed, the submission to METRC fail (an
  exception, or a status other than 200) and the append to the retry file succeed. Then
  the caller receives the success message, the registry and the ledger are those of the
  commit, one line for the record is appended to the retry queue, and the record's
  \<open>metrc_synced\<close> is still \<open>False\<close>: there is no state ``failed'' apart from pending.
\<close>

theorem failed_sync_keeps_move:
  assumes "METRC_API_KEY cfg \<noteq> []" and "FACILITY_LICENSE cfg \<noteq> []"
    and "data ''tag_id'' = Some t" and "t \<noteq> []"
    and "data ''from_location'' = Some f" and "f \<noteq> []"
    and "data ''to_location'' = Some l" and "l \<noteq> []"
    and "move_txn e t f l w = Inr (ts, wc)"
    and "\<forall>c \<in> set (connected_clients w). send_fault e c = None"
    and "\<forall>body. metrc_response e \<noteq> Response 200 body"
    and "file_fault e AppendFallback = None"
  shows "\<exists>w' entry.
           move_package cfg e data w
             = (Inr [(''message'', ''Package moved successfully'')], w')
           \<and> packages w' = packages wc \<and> movements w' = movements wc
           \<and> \<not> metrc_synced (last (movements w'))
           \<and> pending_metrc_sync w' = pending_metrc_sync w @ [entry]
           \<and> in_retry_queue [entry] (last (movements w'))
           \<and> length (metrc_posts w') = Suc (length (metrc_posts w))"
proof -
  let ?ev = "[(''tag_id'', t), (''from_location'', f), (''to_location'', l), (''timestamp'', ts)]"
  let ?w2 = "wc\<lparr>sent := sent w @ map (\<lambda>c. (c, ?ev)) (connected_clients w)\<rparr>"
  let ?payload = "[(''licenseNumber'', FACILITY_LICENSE cfg), (''packageLabel'', t),
                   (''room'', l), (''moveDateTime'', ts)]"
  let ?fallback = "[(''tag_id'', t), (''new_location'', l), (''timestamp'', ts)]"
  note wc = move_txn_Inr(2)[OF assms(9)]
  have ts: "ts = now e" by (rule move_txn_Inr(1)[OF assms(9)])
  have mt: "move_try cfg e t f l w =
           (case sync_with_metrc cfg e t l ts ?w2 of
              (Some ex, w3) \<Rightarrow> (Inl ex, w3)
            | (None, w3) \<Rightarrow> (Inr [(''message'', ''Package moved successfully'')], w3))"
    by (rule move_try_live[OF assms(1,2,9,10)])
  have lastm: "last (movements wc) = \<lparr>movement_id = next_id (movements w), tag_id = t,
                       from_location = f, to_location = l,
                       timestamp = ts, metrc_synced = False\<rparr>"
    and pw: "pending_metrc_sync wc = pending_metrc_sync w"
    and mw: "metrc_posts wc = metrc_posts w"
    unfolding wc ts by simp_all
  from sync_failed[OF assms(11,12), of cfg t l ts ?w2]
  obtain entry where
    sy: "sync_with_metrc cfg e t l ts ?w2 =
           (None, ?w2\<lparr>metrc_posts := metrc_posts ?w2 @ [?payload],
                      pending_metrc_sync := pending_metrc_sync ?w2 @ [entry]\<rparr>)"
    and en: "entry = ?payload \<or> entry = ?fallback"
    by blast
  let ?w' = "?w2\<lparr>metrc_posts := metrc_posts ?w2 @ [?payload],
                  pending_metrc_sync := pending_metrc_sync ?w2 @ [entry]\<rparr>"
  have mp: "move_package cfg e data w
             = (Inr [(''message'', ''Package moved successfully'')], ?w')"
    using move_package_present[OF assms(3-8), of cfg e w] mt sy by simp
  have q: "in_retry_queue [entry] (last (movements ?w'))"
    using en by (auto simp: in_retry_queue_def lastm)
  show ?thesis
  proof (intro exI[of _ ?w'] exI[of _ entry] conjI)
    show "move_package cfg e data w
             = (Inr [(''message'', ''Package moved successfully'')], ?w')" by (rule mp)
    show "packages ?w' = packages wc" by simp
    show "movements ?w' = movements wc" by simp
    show "\<not> metrc_synced (last (movements ?w'))" by (simp add: lastm)
    show "pending_metrc_sync ?w' = pending_metrc_sync w @ [entry]" by (simp add: pw)
    show "in_retry_queue [entry] (last (movements ?w'))" by (rule q)
    show "length (metrc_posts ?w') = Suc (length (metrc_posts w))" by (simp add: mw)
  qed
qed

lemma timeout_move:
  "move_package live_config timeout_env to_flower veg_world
     = (Inr [(''message'', ''Package moved successfully'')], queued_world)"
  by (simp add: scenario_defs timeout_env_def queued_world_def)

lemma timeout_txn:
  "move_txn timeout_env ''T1'' ''VegRoom'' ''FlowerRoom'' veg_world
     = Inr (''2024-05-01T10:00:00'',
            flower_world\<lparr>sent := []\<rparr>)"
  by (simp add: scenario_defs timeout_env_def)

lemma disk_full_move:
  "move_package live_config disk_full_env to_flower veg_world
     = (Inl (HTTPException 500 (Str (Exception ''No space left on device''))),
        flower_world\<lparr>metrc_posts := [[(''licenseNumber'', ''LIC-1''), (''packageLabel'', ''T1''),
                                     (''room'', ''FlowerRoom''),
                                     (''moveDateTime'', ''2024-05-01T10:00:00'')]]\<rparr>)"
  by (simp add: scenario_defs disk_full_env_def)

theorem failed_sync_keeps_move_witness:
  "METRC_API_KEY live_config \<noteq> [] \<and> FACILITY_LICENSE live_config \<noteq> []
   \<and> metrc_response timeout_env = Raises ''ReadTimeout''
   \<and> file_fault timeout_env AppendFallback = None
   \<and> move_package live_config timeout_env to_flower veg_world
       = (Inr [(''message'', ''Package moved successfully'')], queued_world)
   \<and> packages queued_world = packages flower_world
   \<and> movements queued_world = movements flower_world
   \<and> pending_metrc_sync queued_world
       = [[(''tag_id'', ''T1''), (''new_location'', ''FlowerRoom''),
           (''timestamp'', ''2024-05-01T10:00:00'')]]"
proof -
  have h: "METRC_API_KEY live_config \<noteq> []" "FACILITY_LICENSE live_config \<noteq> []"
    "to_flower ''tag_id'' = Some ''T1''" "''T1'' \<noteq> []"
    "to_flower ''from_location'' = Some ''VegRoom''" "''VegRoom'' \<noteq> []"
    "to_flower ''to_location'' = Some ''FlowerRoom''" "''FlowerRoom'' \<noteq> []"
    by (simp_all add: live_config_def to_flower_def)
  have g: "\<forall>c \<in> set (connected_clients veg_world). send_fault timeout_env c = None"
    "\<forall>body. metrc_response timeout_env \<noteq> Response 200 body"
    "file_fault timeout_env AppendFallback = None"
    by (simp_all add: timeout_env_def)
  from failed_sync_keeps_move[OF h timeout_txn g]
  obtain w' entry where
    "move_package live_config timeout_env to_flower veg_world
       = (Inr [(''message'', ''Package moved successfully'')], w')"
    "packages w' = packages (flower_world\<lparr>sent := []\<rparr>)"
    "movements w' = movements (flower_world\<lparr>sent := []\<rparr>)"
    "pending_metrc_sync w' = pending_metrc_sync veg_world @ [entry]"
    by blast
  then show ?thesis
    using h(1,2) g(3)
    by (simp add: timeout_move)
       (auto simp: timeout_env_def queued_world_def flower_world_def veg_world_def)
qed

text \<open>C6 as stated fails. After a submission that timed out the record's flag is \<open>False\<close>, as
  the commit wrote it: no transition to a state ``failed'' has taken place. And when the
  append to the retry file fails too, the caller receives status 500, not success, and
  nothing is queued.\<close>

theorem failed_sync_state_counterexample:
  "metrc_response timeout_env = Raises ''ReadTimeout''
   \<and> move_txn timeout_env ''T1'' ''VegRoom'' ''FlowerRoom'' veg_world
       = Inr (''2024-05-01T10:00:00'', flower_world\<lparr>sent := []\<rparr>)
   \<and> map metrc_synced (movements (flower_world\<lparr>sent := []\<rparr>)) = [False]
   \<and> map metrc_synced
        (movements (snd (move_package live_config timeout_env to_flower veg_world))) = [False]
   \<and> metrc_response disk_full_env = Raises ''ReadTimeout''
   \<and> fst (move_package live_config disk_full_env to_flower veg_world)
       = Inl (HTTPException 500 (Str (Exception ''No space left on device'')))
   \<and> pending_metrc_sync (snd (move_package live_config disk_full_env to_flower veg_world)) = []"
  by (simp add: timeout_move timeout_txn disk_full_move)
     (simp add: timeout_env_def disk_full_env_def queued_world_def flower_world_def)

subsection \<open>Unsynced records and the retry queue (C7)\<close>

lemma move_try_clients:
  "connected_clients (snd (move_try cfg e t f l w)) = connected_clients w"
proof (cases "move_txn e t f l w")
  case (Inl ex)
  then show ?thesis by (simp add: move_try_def)
next
  case (Inr p)
  obtain ts wc where p: "p = (ts, wc)" by (cases p)
  have cw: "connected_clients wc = connected_clients w"
    using move_txn_Inr(2)[OF Inr[unfolded p]] by simp
  obtain rb w2 where b: "broadcast e [(''tag_id'', t), (''from_location'', f),
                             (''to_location'', l), (''timestamp'', ts)] wc = (rb, w2)"
    by (cases "broadcast e [(''tag_id'', t), (''from_location'', f),
                             (''to_location'', l), (''timestamp'', ts)] wc")
  obtain rs w3 where s: "sync_with_metrc cfg e t l ts w2 = (rs, w3)"
    by (cases "sync_with_metrc cfg e t l ts w2")
  have c2: "connected_clients w2 = connected_clients w"
    using broadcast_frame(3)[OF b] cw by simp
  have c3: "connected_clients w3 = connected_clients w"
    using sync_with_metrc_frame(3)[OF s] c2 by simp
  show ?thesis
    using Inr p b s c2 c3
    by (auto simp: move_try_def split: option.splits)
qed

lemma move_package_clients:
  "connected_clients (snd (move_package cfg e data w)) = connected_clients w"
  using move_try_clients[of cfg e "py_str (data ''tag_id'')" "py_str (data ''from_location'')"
      "py_str (data ''to_location'')" w]
  by (auto simp: move_package_def Let_def split: prod.splits sum.splits)

lemma run_clients: "connected_clients (run cfg w steps) = connected_clients w"
proof (induction steps arbitrary: w)
  case Nil
  show ?case by simp
next
  case (Cons s steps)
  obtain e data where s: "s = (e, data)" by (cases s)
  show ?case by (simp add: s Cons.IH move_package_clients)
qed

lemma in_retry_queue_append:
  "in_retry_queue q m \<Longrightarrow> in_retry_queue (q @ q') m"
  by (auto simp: in_retry_queue_def)

lemma all_discoverable_mark_synced:
  assumes "all_discoverable w"
    and "movements w' = mark_synced t ts (movements w @ [m0])"
    and "tag_id m0 = t" and "timestamp m0 = ts"
    and "pending_metrc_sync w' = pending_metrc_sync w"
  shows "all_discoverable w'"
  unfolding all_discoverable_def
proof (intro ballI impI)
  fix m
  assume m: "m \<in> set (movements w')" and ns: "\<not> metrc_synced m"
  let ?g = "\<lambda>m. if tag_id m = t \<and> timestamp m = ts then m\<lparr>metrc_synced := True\<rparr> else m"
  from m have "m \<in> set (map ?g (movements w @ [m0]))"
    unfolding assms(2) mark_synced_def .
  then have "m \<in> ?g ` set (movements w @ [m0])" by (simp only: set_map)
  then obtain m1 where m1: "m1 \<in> set (movements w @ [m0])" and gm: "m = ?g m1"
    by (rule imageE)
  from gm ns have same: "m = m1" and nomatch: "\<not> (tag_id m1 = t \<and> timestamp m1 = ts)"
    by (auto split: if_splits)
  from nomatch assms(3,4) have "m1 \<noteq> m0" by auto
  with m1 have "m1 \<in> set (movements w)" by simp
  with assms(1) ns same have "in_retry_queue (pending_metrc_sync w) m"
    by (simp add: all_discoverable_def)
  then show "in_retry_queue (pending_metrc_sync w') m" by (simp add: assms(5))
qed

lemma all_discoverable_queued:
  assumes "all_discoverable w"
    and "movements w' = movements w @ [m0]"
    and "pending_metrc_sync w' = pending_metrc_sync w @ [entry]"
    and "in_retry_queue [entry] m0"
  shows "all_discoverable w'"
  unfolding all_discoverable_def
proof (intro ballI impI)
  fix m
  assume m: "m \<in> set (movements w')" and ns: "\<not> metrc_synced m"
  from m assms(2) consider "m \<in> set (movements w)" | "m = m0" by auto
  then show "in_retry_queue (pending_metrc_sync w') m"
  proof cases
    case 1
    with assms(1) ns have "in_retry_queue (pending_metrc_sync w) m"
      by (simp add: all_discoverable_def)
    then show ?thesis unfolding assms(3) by (rule in_retry_queue_append)
  next
    case 2
    with assms(4) show ?thesis by (auto simp: assms(3) in_retry_queue_def)
  qed
qed

lemma move_package_discoverable:
  assumes en: "METRC_API_KEY cfg \<noteq> []" "FACILITY_LICENSE cfg \<noteq> []"
    and ok: "\<forall>c \<in> set (connected_clients w). send_fault e c = None"
    and ff: "file_fault e AppendFallback = None"
    and inv: "all_discoverable w"
  shows "all_discoverable (snd (move_package cfg e data w))"
proof (cases "py_not (data ''tag_id'') \<or> py_not (data ''from_location'')
              \<or> py_not (data ''to_location'')")
  case True
  with inv show ?thesis by (auto simp: move_package_def)
next
  case False
  then obtain t f l where d: "data ''tag_id'' = Some t" "t \<noteq> []"
    "data ''from_location'' = Some f" "f \<noteq> []" "data ''to_location'' = Some l" "l \<noteq> []"
    by (auto simp: py_not_def split: option.splits)
  note mp = move_package_present[OF d, of cfg e w]
  show ?thesis
  proof (cases "move_txn e t f l w")
    case (Inl ex)
    then have "move_try cfg e t f l w = (Inl ex, w)" by (rule move_try_txn_Inl)
    with mp inv show ?thesis by auto
  next
    case (Inr p)
    obtain ts wc where p: "p = (ts, wc)" by (cases p)
    note tx = Inr[unfolded p]
    note wc = move_txn_Inr(2)[OF tx]
    have ts: "ts = now e" by (rule move_txn_Inr(1)[OF tx])
    let ?m0 = "\<lparr>movement_id = next_id (movements w), tag_id = t,
                       from_location = f, to_location = l,
                       timestamp = ts, metrc_synced = False\<rparr>"
    let ?w2 = "wc\<lparr>sent := sent w @ map (\<lambda>c. (c, [(''tag_id'', t), (''from_location'', f),
                             (''to_location'', l), (''timestamp'', ts)])) (connected_clients w)\<rparr>"
    have m2: "movements ?w2 = movements w @ [?m0]"
      and p2: "pending_metrc_sync ?w2 = pending_metrc_sync w"
      unfolding wc ts by simp_all
    from sync_outcome[OF ff, of cfg t l ts ?w2] obtain w3 where
      sy: "sync_with_metrc cfg e t l ts ?w2 = (None, w3)"
      and alt: "(movements w3 = mark_synced t ts (movements ?w2)
                  \<and> pending_metrc_sync w3 = pending_metrc_sync ?w2)
               \<or> (movements w3 = movements ?w2
                  \<and> (\<exists>entry. pending_metrc_sync w3 = pending_metrc_sync ?w2 @ [entry]
                       \<and> (map_of entry ''packageLabel'' = Some t
                            \<and> map_of entry ''moveDateTime'' = Some ts
                          \<or> map_of entry ''tag_id'' = Some t
                            \<and> map_of entry ''timestamp'' = Some ts)))"
      by blast
    have w3: "snd (move_package cfg e data w) = w3"
      using mp move_try_live[OF en tx ok] sy by simp
    from alt have "all_discoverable w3"
    proof
      assume a: "movements w3 = mark_synced t ts (movements ?w2)
                  \<and> pending_metrc_sync w3 = pending_metrc_sync ?w2"
      show ?thesis
        by (rule all_discoverable_mark_synced[OF inv, of w3 t ts ?m0])
           (use a m2 p2 in simp_all)
    next
      assume "movements w3 = movements ?w2
                  \<and> (\<exists>entry. pending_metrc_sync w3 = pending_metrc_sync ?w2 @ [entry]
                       \<and> (map_of entry ''packageLabel'' = Some t
                            \<and> map_of entry ''moveDateTime'' = Some ts
                          \<or> map_of entry ''tag_id'' = Some t
                            \<and> map_of entry ''timestamp'' = Some ts))"
      then obtain entry where a: "movements w3 = movements ?w2"
        "pending_metrc_sync w3 = pending_metrc_sync ?w2 @ [entry]"
        "map_of entry ''packageLabel'' = Some t \<and> map_of entry ''moveDateTime'' = Some ts
           \<or> map_of entry ''tag_id'' = Some t \<and> map_of entry ''timestamp'' = Some ts"
        by blast
      have q: "in_retry_queue [entry] ?m0"
        using a(3) by (auto simp: in_retry_queue_def)
      show ?thesis
        by (rule all_discoverable_queued[OF inv _ _ q]) (use a m2 p2 in simp_all)
    qed
    with w3 show ?thesis by simp
  qed
qed

text \<open>
  C7, as amended. Let the sync be enabled, and start from a state where every record not
  marked synced has a line in the retry queue (an empty ledger, say). After any sequence
  of calls of \<open>move_package\<close> in which every send of the fan-out and the last-resort append
  to the retry file succeed, every record not marked synced still has a line in the
  retry queue.
\<close>

theorem unsynced_records_discoverable:
  assumes "METRC_API_KEY cfg \<noteq> []" and "FACILITY_LICENSE cfg \<noteq> []"
    and "all_discoverable w"
    and "\<forall>s \<in> set steps. (\<forall>c \<in> set (connected_clients w). send_fault (fst s) c = None)
                           \<and> file_fault (fst s) AppendFallback = None"
  shows "all_discoverable (run cfg w steps)"
  using assms(3,4)
proof (induction steps arbitrary: w)
  case Nil
  then show ?case by simp
next
  case (Cons s steps)
  obtain e data where s: "s = (e, data)" by (cases s)
  let ?w1 = "snd (move_package cfg e data w)"
  have ok: "\<forall>c \<in> set (connected_clients w). send_fault e c = None"
    and ff: "file_fault e AppendFallback = None"
    using Cons.prems(2) s by auto
  have inv1: "all_discoverable ?w1"
    by (rule move_package_discoverable[OF assms(1,2) ok ff Cons.prems(1)])
  have rest: "\<forall>s \<in> set steps. (\<forall>c \<in> set (connected_clients ?w1). send_fault (fst s) c = None)
                           \<and> file_fault (fst s) AppendFallback = None"
    using Cons.prems(2) by (simp add: move_package_clients)
  show ?case
    unfolding s run.simps by (rule Cons.IH[OF inv1 rest])
qed

lemma timeout_then_dry:
  "run live_config veg_world [(timeout_env, to_flower), (later_env, to_dry)]
     = dry_world\<lparr>movements :=
           [\<lparr>movement_id = 1, tag_id = ''T1'', from_location = ''VegRoom'',
             to_location = ''FlowerRoom'', timestamp = ''2024-05-01T10:00:00'',
             metrc_synced = False\<rparr>,
            \<lparr>movement_id = 2, tag_id = ''T1'', from_location = ''FlowerRoom'',
             to_location = ''DryRoom'', timestamp = ''2024-05-02T09:30:00'',
             metrc_synced = True\<rparr>],
         pending_metrc_sync :=
           [[(''tag_id'', ''T1''), (''new_location'', ''FlowerRoom''),
             (''timestamp'', ''2024-05-01T10:00:00'')]]\<rparr>"
  by (simp add: scenario_defs timeout_env_def later_env_def to_dry_def dry_world_def)

theorem unsynced_records_discoverable_witness:
  "all_discoverable veg_world
   \<and> map metrc_synced
        (movements (run live_config veg_world [(timeout_env, to_flower), (later_env, to_dry)]))
       = [False, True]
   \<and> all_discoverable
        (run live_config veg_world [(timeout_env, to_flower), (later_env, to_dry)])"
proof -
  have h: "METRC_API_KEY live_config \<noteq> []" "FACILITY_LICENSE live_config \<noteq> []"
    by (simp_all add: live_config_def)
  have i: "all_discoverable veg_world"
    by (simp add: all_discoverable_def veg_world_def)
  have g: "\<forall>s \<in> set [(timeout_env, to_flower), (later_env, to_dry)].
             (\<forall>c \<in> set (connected_clients veg_world). send_fault (fst s) c = None)
             \<and> file_fault (fst s) AppendFallback = None"
    by (simp add: timeout_env_def later_env_def)
  have m: "map metrc_synced
        (movements (run live_config veg_world [(timeout_env, to_flower), (later_env, to_dry)]))
       = [False, True]"
    unfolding timeout_then_dry by simp
  from unsynced_records_discoverable[OF h i g] i m show ?thesis by simp
qed

text \<open>C7 as stated fails with the configuration of the source (no credentials: line 104 skips
  the sync): the successful move of the scenario leaves a record that is not synced, and
  the retry queue is empty.\<close>

theorem unsynced_record_not_queued_counterexample:
  "move_package source_config calm_env to_flower veg_world
     = (Inr [(''message'', ''Package moved successfully'')], flower_world)
   \<and> map metrc_synced (movements flower_world) = [False]
   \<and> pending_metrc_sync flower_world = []
   \<and> \<not> all_discoverable flower_world"
  using veg_to_flower
  by (simp add: flower_world_def all_discoverable_def in_retry_queue_def)

subsection \<open>Moves that return\<close>

text \<open>A request with its three fields, for a known tag in the stated location, in an
  environment where no statement of the transaction and no send fails, returns the
  success message; without credentials the state is then exactly that of the commit
  plus the events sent.\<close>

lemma move_package_returns:
  assumes "data ''tag_id'' = Some t" "t \<noteq> []" "data ''from_location'' = Some f" "f \<noteq> []"
    "data ''to_location'' = Some l" "l \<noteq> []"
    and "packages w t = Some row" "location row = Some f"
    and "db_fault e Connect = None" "db_fault e SelectLocation = None"
      "db_fault e UpdatePackage = None" "db_fault e InsertMovement = None"
      "db_fault e Commit = None"
    and "\<forall>c \<in> set (connected_clients w). send_fault e c = None"
    and "METRC_API_KEY cfg = [] \<or> FACILITY_LICENSE cfg = []"
  shows "move_package cfg e data w =
           (Inr [(''message'', ''Package moved successfully'')],
            w\<lparr>packages := (packages w)(t \<mapsto>
                   \<lparr>location = Some l, last_updated = Some (now e),
                    status = Some ''Active''\<rparr>),
              movements := movements w @
                   [\<lparr>movement_id = next_id (movements w), tag_id = t,
                     from_location = f, to_location = l,
                     timestamp = now e, metrc_synced = False\<rparr>],
              sent := sent w @ map (\<lambda>c. (c, [(''tag_id'', t), (''from_location'', f),
                        (''to_location'', l), (''timestamp'', now e)])) (connected_clients w)\<rparr>)"
proof -
  let ?wc = "w\<lparr>packages := (packages w)(t \<mapsto>
                   \<lparr>location = Some l, last_updated = Some (now e),
                    status = Some ''Active''\<rparr>),
              movements := movements w @
                   [\<lparr>movement_id = next_id (movements w), tag_id = t,
                     from_location = f, to_location = l,
                     timestamp = now e, metrc_synced = False\<rparr>]\<rparr>"
  have tx: "move_txn e t f l w = Inr (now e, ?wc)"
    using assms(7-13) by (simp add: move_txn_def Let_def)
  have ok: "\<forall>c \<in> set (connected_clients ?wc). send_fault e c = None"
    using assms(14) by simp
  have mt: "move_try cfg e t f l w =
              (Inr [(''message'', ''Package moved successfully'')],
               ?wc\<lparr>sent := sent ?wc @ map (\<lambda>c. (c, [(''tag_id'', t), (''from_location'', f),
                        (''to_location'', l), (''timestamp'', now e)])) (connected_clients ?wc)\<rparr>)"
    using assms(15) by (auto simp: move_try_def tx broadcast_all_ok[OF ok])
  show ?thesis
    using move_package_present[OF assms(1-6), of cfg e w] mt by simp
qed

end
